theory Spec2Isabelle
  imports Main
begin

section \<open>JavaScript values\<close>

text \<open>
  The webhook payload is whatever \<^verbatim>\<open>JSON.parse\<close> returns or the caller passes in: the
  TypeScript types are erased at run time, and the source itself guards every access with
  \<^verbatim>\<open>?.\<close> and \<^verbatim>\<open>!x\<close>. Values are therefore modelled untyped, as \<^verbatim>\<open>JSON.parse\<close> builds them
  (plus undefined): an object is a plain object, given by the association list of its own
  properties and read with \<open>map_of\<close>. The source does no arithmetic on a number of the
  payload; \<open>JNum z s\<close> is a number by what the source can observe of it: \<open>z\<close> says whether it
  is falsy (0, -0 or NaN), and \<open>s\<close> is the text \<^verbatim>\<open>Number.prototype.toString\<close> gives for it.
\<close>

datatype jsval =
    JUndefined
  | JNull
  | JBool bool
  | JNum bool string
  | JStr string
  | JArr "jsval list"
  | JObj "(string \<times> jsval) list"

text \<open>
  What a \<^verbatim>\<open>throw\<close> can carry: a \<^verbatim>\<open>CMPError\<close> (message, statusCode, details; the last two
  optional), any other instance of \<^verbatim>\<open>Error\<close> (a \<^verbatim>\<open>TypeError\<close> included) with its message,
  or a value that is no \<^verbatim>\<open>Error\<close> at all.
\<close>

datatype thrown =
    CMPError string "int option" "string option"
  | JsError string
  | Thrown jsval

text \<open>\<^verbatim>\<open>!x\<close> is true on undefined, null, false, a falsy number and the empty string.\<close>

fun truthy :: "jsval \<Rightarrow> bool" where
  "truthy JUndefined = False"
| "truthy JNull = False"
| "truthy (JBool b) = b"
| "truthy (JNum z s) = (\<not> z)"
| "truthy (JStr s) = (s \<noteq> [])"
| "truthy (JArr xs) = True"
| "truthy (JObj kvs) = True"

text \<open>
  \<^verbatim>\<open>Array.prototype.join\<close> with the separator \<^verbatim>\<open>,\<close> over the converted elements: the first
  conversion that throws ends it.
\<close>

fun join_comma :: "(thrown + string) list \<Rightarrow> thrown + string" where
  "join_comma [] = Inr []"
| "join_comma [r] = r"
| "join_comma (r # t # rs) =
     (case r of
        Inl e \<Rightarrow> Inl e
      | Inr s \<Rightarrow> (case join_comma (t # rs) of Inl e \<Rightarrow> Inl e | Inr u \<Rightarrow> Inr (s @ '','' @ u)))"

text \<open>
  The string a template literal \<^verbatim>\<open>`${x}`\<close> puts in for \<open>x\<close>. A string stands for itself; an
  array is its elements joined by commas (undefined and null elements print as nothing). A
  plain object without an own \<^verbatim>\<open>toString\<close> property prints as \<^verbatim>\<open>[object Object]\<close>; with one
  (no value of the model is callable) neither \<^verbatim>\<open>toString\<close> nor \<^verbatim>\<open>valueOf\<close> gives a primitive
  and the conversion throws a \<^verbatim>\<open>TypeError\<close> (the message is the one Node prints).
\<close>

fun js_to_string :: "jsval \<Rightarrow> thrown + string" where
  "js_to_string JUndefined = Inr ''undefined''"
| "js_to_string JNull = Inr ''null''"
| "js_to_string (JBool b) = Inr (if b then ''true'' else ''false'')"
| "js_to_string (JNum z s) = Inr s"
| "js_to_string (JStr s) = Inr s"
| "js_to_string (JArr xs) =
     join_comma (map (\<lambda>x. if x = JUndefined \<or> x = JNull then Inr [] else js_to_string x) xs)"
| "js_to_string (JObj kvs) =
     (if map_of kvs ''toString'' = None then Inr ''[object Object]''
      else Inl (JsError ''Cannot convert object to primitive value''))"

text \<open>
  A template literal, part by part from left to right: \<open>Inr\<close> of a fixed text or of a string
  variable, or the conversion of a value. The first conversion that throws ends it.
\<close>

fun template :: "(thrown + string) list \<Rightarrow> thrown + string" where
  "template [] = Inr []"
| "template (Inl e # ps) = Inl e"
| "template (Inr s # ps) = (case template ps of Inl e \<Rightarrow> Inl e | Inr t \<Rightarrow> Inr (s @ t))"

definition lookup_prop :: "(string \<times> jsval) list \<Rightarrow> string \<Rightarrow> jsval" where
  "lookup_prop kvs k = (case map_of kvs k of None \<Rightarrow> JUndefined | Some v \<Rightarrow> v)"

text \<open>
  \<^verbatim>\<open>v.k\<close>: reading a property of undefined or null throws a \<^verbatim>\<open>TypeError\<close> (the message
  is the one Node prints); an object gives the property or undefined. None of the names the
  source reads is a built-in property of a string, number, boolean, array or plain object,
  so those give undefined.
\<close>

definition type_error_message :: "string \<Rightarrow> string \<Rightarrow> string" where
  "type_error_message what k =
     ''Cannot read properties of '' @ what @ '' (reading '' @ [CHR 0x27] @ k @ [CHR 0x27] @ '')''"

fun get_prop :: "jsval \<Rightarrow> string \<Rightarrow> thrown + jsval" where
  "get_prop JUndefined k = Inl (JsError (type_error_message ''undefined'' k))"
| "get_prop JNull k = Inl (JsError (type_error_message ''null'' k))"
| "get_prop (JObj kvs) k = Inr (lookup_prop kvs k)"
| "get_prop v k = Inr JUndefined"

text \<open>\<^verbatim>\<open>v?.k\<close>: undefined when \<open>v\<close> is undefined or null, \<^verbatim>\<open>v.k\<close> otherwise.\<close>

fun opt_prop :: "jsval \<Rightarrow> string \<Rightarrow> jsval" where
  "opt_prop (JObj kvs) k = lookup_prop kvs k"
| "opt_prop v k = JUndefined"

text \<open>
  \<^verbatim>\<open>v?.[0]\<close>: the first element of an array, the first character of a string, the property
  \<^verbatim>\<open>"0"\<close> of an object; undefined when there is none.
\<close>

fun opt_index0 :: "jsval \<Rightarrow> jsval" where
  "opt_index0 (JArr []) = JUndefined"
| "opt_index0 (JArr (x # xs)) = x"
| "opt_index0 (JStr []) = JUndefined"
| "opt_index0 (JStr (c # cs)) = JStr [c]"
| "opt_index0 (JObj kvs) = lookup_prop kvs ''0''"
| "opt_index0 v = JUndefined"

section \<open>Numbers the source computes with\<close>

text \<open>
  The token lifetime and the clock are Numbers, IEEE doubles, and the source subtracts,
  multiplies, adds and compares them. The model has the doubles that are whole numbers, the
  two infinities and NaN. \<open>to_double\<close> rounds an exact integer result to the nearest double,
  ties to the even significand of 53 bits; a magnitude of \<open>2^1024\<close> or more after rounding is
  an infinity. Below \<open>2^53\<close> every integer is a double; above, \<open>Finite a\<close> is a double only
  when \<open>to_double a = Finite a\<close>, and only such values come from the parser, the clock or
  the arithmetic.
\<close>

datatype number = Finite int | PlusInfinity | MinusInfinity | NaN

function shift_of :: "nat \<Rightarrow> nat" where
  "shift_of m = (if m < 9007199254740992 then 0 else Suc (shift_of (m div 2)))"
  by pat_completeness auto
termination
  by (relation "measure id") auto

declare shift_of.simps [simp del]

definition to_double :: "int \<Rightarrow> number" where
  "to_double a =
     (let m = nat \<bar>a\<bar>;
          q = 2 ^ shift_of m;
          k = m div q;
          r = m mod q;
          k' = (if q < 2 * r \<or> (2 * r = q \<and> odd k) then Suc k else k);
          v = k' * q
      in if 2 ^ 1024 \<le> v then (if a < 0 then MinusInfinity else PlusInfinity)
         else Finite (if a < 0 then - int v else int v))"

definition safe_integer :: "int \<Rightarrow> bool" where
  "safe_integer x \<longleftrightarrow> \<bar>x\<bar> < 9007199254740992"

fun js_neg :: "number \<Rightarrow> number" where
  "js_neg (Finite a) = Finite (- a)"
| "js_neg PlusInfinity = MinusInfinity"
| "js_neg MinusInfinity = PlusInfinity"
| "js_neg NaN = NaN"

fun js_add :: "number \<Rightarrow> number \<Rightarrow> number" where
  "js_add (Finite a) (Finite b) = to_double (a + b)"
| "js_add NaN y = NaN"
| "js_add x NaN = NaN"
| "js_add PlusInfinity MinusInfinity = NaN"
| "js_add MinusInfinity PlusInfinity = NaN"
| "js_add PlusInfinity y = PlusInfinity"
| "js_add MinusInfinity y = MinusInfinity"
| "js_add x PlusInfinity = PlusInfinity"
| "js_add x MinusInfinity = MinusInfinity"

definition js_sub :: "number \<Rightarrow> number \<Rightarrow> number" where
  "js_sub x y = js_add x (js_neg y)"

fun number_sign :: "number \<Rightarrow> int" where
  "number_sign (Finite a) = sgn a"
| "number_sign PlusInfinity = 1"
| "number_sign MinusInfinity = - 1"
| "number_sign NaN = 0"

fun js_mul :: "number \<Rightarrow> number \<Rightarrow> number" where
  "js_mul (Finite a) (Finite b) = to_double (a * b)"
| "js_mul NaN y = NaN"
| "js_mul x NaN = NaN"
| "js_mul x y =
     (if number_sign x * number_sign y = 0 then NaN
      else if 0 < number_sign x * number_sign y then PlusInfinity
      else MinusInfinity)"

fun js_less :: "number \<Rightarrow> number \<Rightarrow> bool" where
  "js_less (Finite a) (Finite b) = (a < b)"
| "js_less NaN y = False"
| "js_less x NaN = False"
| "js_less x MinusInfinity = False"
| "js_less PlusInfinity y = False"
| "js_less x PlusInfinity = True"
| "js_less MinusInfinity y = True"

text \<open>\<^verbatim>\<open>!x\<close> on a number is true on 0 and NaN.\<close>

fun number_truthy :: "number \<Rightarrow> bool" where
  "number_truthy (Finite a) = (a \<noteq> 0)"
| "number_truthy NaN = False"
| "number_truthy x = True"

section \<open>Webhook payload\<close>

record PreviewRequest =
  contentId :: jsval
  versionId :: jsval
  previewId :: jsval
  updatedBy :: jsval
  contentHash :: jsval

text \<open>
  The five \<^verbatim>\<open>const\<close> declarations of \<open>parseWebhookPayload\<close>, from \<^verbatim>\<open>payload.data\<close>: only
  the first entry of \<^verbatim>\<open>structured_contents\<close> is read.
\<close>

definition extract_fields :: "jsval \<Rightarrow> PreviewRequest" where
  "extract_fields data =
     (let structuredContent =
            opt_index0 (opt_prop (opt_prop data ''assets'') ''structured_contents'')
      in \<lparr>contentId = opt_prop structuredContent ''id'',
          versionId = opt_prop structuredContent ''version_id'',
          previewId = opt_prop data ''preview_id'',
          updatedBy = opt_prop (opt_prop structuredContent ''content_body'') ''updated_by'',
          contentHash =
            opt_prop (opt_prop (opt_prop structuredContent ''content_body'') ''fields_version'')
              ''content_hash''\<rparr>)"

text \<open>
  The third argument of the \<^verbatim>\<open>CMPError\<close> that \<open>parseWebhookPayload\<close> throws: a template
  literal, evaluated before the error is built.
\<close>

definition missing_fields_details :: "PreviewRequest \<Rightarrow> thrown + string" where
  "missing_fields_details r =
     template [Inr ''contentId='', js_to_string (contentId r),
               Inr '', versionId='', js_to_string (versionId r),
               Inr '', previewId='', js_to_string (previewId r),
               Inr '', updatedBy='', js_to_string (updatedBy r),
               Inr '', contentHash='', js_to_string (contentHash r)]"

definition parseWebhookPayload :: "jsval \<Rightarrow> thrown + PreviewRequest" where
  "parseWebhookPayload payload =
     (case get_prop payload ''data'' of
        Inl e \<Rightarrow> Inl e
      | Inr data \<Rightarrow>
          let r = extract_fields data
          in if \<not> truthy (contentId r) \<or> \<not> truthy (versionId r) \<or> \<not> truthy (previewId r)
                \<or> \<not> truthy (updatedBy r) \<or> \<not> truthy (contentHash r)
             then (case missing_fields_details r of
                     Inl e \<Rightarrow> Inl e
                   | Inr details \<Rightarrow>
                       Inl (CMPError ''Missing required fields in webhook payload'' (Some 400)
                              (Some details)))
             else Inr r)"

section \<open>Configuration\<close>

record CMPOAuthConfig =
  clientId :: string
  clientSecret :: string
  authServerUrl :: string

record CMPClientConfig = CMPOAuthConfig +
  apiBaseUrl :: string

record CMPWebhookConfig = CMPClientConfig +
  previewUrl :: string
  previewTypes :: "string list option"

section \<open>The environment: network, clock and JSON parser\<close>

text \<open>
  \<open>KeyedPreviews\<close>: a plain object with string values, as the mapping from its own property
  names to their values. The order in which an engine enumerates the names is not part of
  the model.
\<close>

type_synonym KeyedPreviews = "string \<rightharpoonup> string"

text \<open>
  \<^verbatim>\<open>URLSearchParams(...).toString()\<close> and \<^verbatim>\<open>JSON.stringify(...)\<close> are library encoders; a request
  body is kept as the data handed to them: the form fields, the object of the acknowledge
  call, or the keyed previews of the completion call.
\<close>

datatype req_body =
    FormBody "(string \<times> string) list"
  | JsonBody jsval
  | KeyedPreviewsBody KeyedPreviews

record request =
  url :: string
  http_method :: string
  headers :: "(string \<times> string) list"
  body :: req_body

text \<open>
  The body of the token endpoint's answer is read \<^verbatim>\<open>as TokenResponse\<close>: at its declared
  type, each field possibly missing, the lifetime a number of the model. \<open>None\<close> for the
  whole body is JSON \<^verbatim>\<open>null\<close>. A response carries what \<^verbatim>\<open>text()\<close> and \<^verbatim>\<open>json()\<close> give when
  awaited: a value, or something thrown.
\<close>

record TokenResponse =
  access_token :: "string option"
  expires_in :: "number option"

record response =
  resp_ok :: bool
  resp_status :: int
  resp_text :: "thrown + string"
  resp_json :: "thrown + TokenResponse option"

text \<open>
  The environment answers the \<open>n\<close>-th \<^verbatim>\<open>fetch\<close> of a run (a response, or a thrown value
  of any kind), the \<open>n\<close>-th reading of \<^verbatim>\<open>Date.now()\<close> (a whole number of milliseconds), and
  \<^verbatim>\<open>JSON.parse\<close> (\<open>None\<close> where it throws). The world records what the program has done so
  far.
\<close>

record env =
  fetch :: "nat \<Rightarrow> request \<Rightarrow> thrown + response"
  now :: "nat \<Rightarrow> int"
  json_parse :: "string \<Rightarrow> jsval option"

record world =
  requests :: "request list"
  clock_reads :: nat

definition date_now :: "env \<Rightarrow> world \<Rightarrow> int \<times> world" where
  "date_now E w = (now E (clock_reads w), w\<lparr>clock_reads := Suc (clock_reads w)\<rparr>)"

definition do_fetch :: "env \<Rightarrow> request \<Rightarrow> world \<Rightarrow> (thrown + response) \<times> world" where
  "do_fetch E r w = (fetch E (length (requests w)) r, w\<lparr>requests := requests w @ [r]\<rparr>)"

section \<open>OAuth client\<close>

record TokenCache =
  accessToken :: string
  expiresAt :: number

record CMPOAuthClient =
  oauth_config :: CMPOAuthConfig
  tokenCache :: "TokenCache option"

definition new_CMPOAuthClient :: "CMPOAuthConfig \<Rightarrow> thrown + CMPOAuthClient" where
  "new_CMPOAuthClient config =
     (if clientId config = [] then Inl (JsError ''clientId is required'')
      else if clientSecret config = [] then Inl (JsError ''clientSecret is required'')
      else if authServerUrl config = [] then Inl (JsError ''authServerUrl is required'')
      else Inr \<lparr>oauth_config = config, tokenCache = None\<rparr>)"

definition token_request :: "CMPOAuthConfig \<Rightarrow> request" where
  "token_request config =
     \<lparr>url = authServerUrl config @ ''/o/oauth2/v1/token'',
      http_method = ''POST'',
      headers = [(''Content-Type'', ''application/x-www-form-urlencoded'')],
      body = FormBody [(''client_id'', clientId config),
                       (''client_secret'', clientSecret config),
                       (''grant_type'', ''client_credentials'')]\<rparr>"

text \<open>The part of \<open>getAccessToken\<close> after the cache check: fetch a new token and cache it.\<close>

definition fetch_new_token ::
  "env \<Rightarrow> CMPOAuthClient \<Rightarrow> world \<Rightarrow> (thrown + string) \<times> CMPOAuthClient \<times> world" where
  "fetch_new_token E c w =
     (case do_fetch E (token_request (oauth_config c)) w of
        (Inl e, w1) \<Rightarrow> (Inl e, c, w1)
      | (Inr resp, w1) \<Rightarrow>
          if \<not> resp_ok resp then
            (case resp_text resp of
               Inl e \<Rightarrow> (Inl e, c, w1)
             | Inr errorText \<Rightarrow>
                 (Inl (CMPError ''Failed to obtain access token'' (Some (resp_status resp))
                         (Some errorText)), c, w1))
          else
            (case resp_json resp of
               Inl e \<Rightarrow> (Inl e, c, w1)
             | Inr None \<Rightarrow> (Inl (JsError (type_error_message ''null'' ''access_token'')), c, w1)
             | Inr (Some data) \<Rightarrow>
                 (case (access_token data, expires_in data) of
                    (Some tok, Some secs) \<Rightarrow>
                      if tok = [] \<or> \<not> number_truthy secs then
                        (Inl (CMPError ''Invalid token response: missing access_token or expires_in''
                                None None), c, w1)
                      else
                        let expiresInMs = js_mul (js_sub secs (Finite 300)) (Finite 1000);
                            (t, w2) = date_now E w1
                        in (Inr tok,
                            c\<lparr>tokenCache :=
                                Some \<lparr>accessToken = tok,
                                      expiresAt = js_add (Finite t) expiresInMs\<rparr>\<rparr>,
                            w2)
                  | _ \<Rightarrow>
                      (Inl (CMPError ''Invalid token response: missing access_token or expires_in''
                              None None), c, w1))))"

definition getAccessToken ::
  "env \<Rightarrow> CMPOAuthClient \<Rightarrow> world \<Rightarrow> (thrown + string) \<times> CMPOAuthClient \<times> world" where
  "getAccessToken E c w =
     (case tokenCache c of
        None \<Rightarrow> fetch_new_token E c w
      | Some tc \<Rightarrow>
          let (t, w1) = date_now E w
          in if js_less (Finite t) (expiresAt tc) then (Inr (accessToken tc), c, w1)
             else fetch_new_token E c w1)"

definition clearCache :: "CMPOAuthClient \<Rightarrow> CMPOAuthClient" where
  "clearCache c = c\<lparr>tokenCache := None\<rparr>"

definition hasCachedToken :: "env \<Rightarrow> CMPOAuthClient \<Rightarrow> world \<Rightarrow> bool \<times> world" where
  "hasCachedToken E c w =
     (case tokenCache c of
        None \<Rightarrow> (False, w)
      | Some tc \<Rightarrow> let (t, w1) = date_now E w in (js_less (Finite t) (expiresAt tc), w1))"

section \<open>API client\<close>

record CMPClient =
  client_config :: CMPClientConfig
  oauthClient :: CMPOAuthClient

definition new_CMPClient :: "CMPClientConfig \<Rightarrow> thrown + CMPClient" where
  "new_CMPClient config =
     (if apiBaseUrl config = [] then Inl (JsError ''apiBaseUrl is required'')
      else
        (case new_CMPOAuthClient
                \<lparr>clientId = clientId config, clientSecret = clientSecret config,
                 authServerUrl = authServerUrl config\<rparr> of
           Inl e \<Rightarrow> Inl e
         | Inr oc \<Rightarrow> Inr \<lparr>client_config = config, oauthClient = oc\<rparr>))"

text \<open>
  The URL templates of the two protocol calls. Each is the first statement of its method,
  so a conversion that throws does so before the access token is asked for.
\<close>

definition acknowledge_url :: "CMPClientConfig \<Rightarrow> jsval \<Rightarrow> jsval \<Rightarrow> jsval \<Rightarrow> thrown + string" where
  "acknowledge_url config cid vid pid =
     template [Inr (apiBaseUrl config), Inr ''/structured-content/contents/'', js_to_string cid,
               Inr ''/versions/'', js_to_string vid, Inr ''/previews/'', js_to_string pid,
               Inr ''/acknowledge'']"

definition completion_url :: "CMPClientConfig \<Rightarrow> jsval \<Rightarrow> jsval \<Rightarrow> jsval \<Rightarrow> thrown + string" where
  "completion_url config cid vid pid =
     template [Inr (apiBaseUrl config), Inr ''/structured-content/contents/'', js_to_string cid,
               Inr ''/versions/'', js_to_string vid, Inr ''/previews/'', js_to_string pid,
               Inr ''/complete'']"

definition acknowledge_request :: "string \<Rightarrow> jsval \<Rightarrow> jsval \<Rightarrow> string \<Rightarrow> request" where
  "acknowledge_request acknowledgeUrl ackBy hash tok =
     \<lparr>url = acknowledgeUrl,
      http_method = ''POST'',
      headers = [(''Authorization'', ''Bearer '' @ tok),
                 (''Content-Type'', ''application/json'')],
      body = JsonBody (JObj [(''acknowledged_by'', ackBy), (''content_hash'', hash)])\<rparr>"

definition acknowledgePreview ::
  "env \<Rightarrow> CMPClient \<Rightarrow> jsval \<Rightarrow> jsval \<Rightarrow> jsval \<Rightarrow> jsval \<Rightarrow> jsval \<Rightarrow> world
     \<Rightarrow> (thrown + unit) \<times> CMPClient \<times> world" where
  "acknowledgePreview E c cid vid pid ackBy hash w =
     (case acknowledge_url (client_config c) cid vid pid of
        Inl e \<Rightarrow> (Inl e, c, w)
      | Inr acknowledgeUrl \<Rightarrow>
          (case getAccessToken E (oauthClient c) w of
             (Inl e, oc, w1) \<Rightarrow> (Inl e, c\<lparr>oauthClient := oc\<rparr>, w1)
           | (Inr tok, oc, w1) \<Rightarrow>
               (case do_fetch E (acknowledge_request acknowledgeUrl ackBy hash tok) w1 of
                  (Inl e, w2) \<Rightarrow> (Inl e, c\<lparr>oauthClient := oc\<rparr>, w2)
                | (Inr resp, w2) \<Rightarrow>
                    if \<not> resp_ok resp then
                      (case resp_text resp of
                         Inl e \<Rightarrow> (Inl e, c\<lparr>oauthClient := oc\<rparr>, w2)
                       | Inr errorText \<Rightarrow>
                           (Inl (CMPError ''Failed to acknowledge preview''
                                   (Some (resp_status resp)) (Some errorText)),
                            c\<lparr>oauthClient := oc\<rparr>, w2))
                    else (Inr (), c\<lparr>oauthClient := oc\<rparr>, w2))))"

definition completion_request :: "string \<Rightarrow> KeyedPreviews \<Rightarrow> string \<Rightarrow> request" where
  "completion_request completionUrl kp tok =
     \<lparr>url = completionUrl,
      http_method = ''POST'',
      headers = [(''Authorization'', ''Bearer '' @ tok),
                 (''Content-Type'', ''application/json'')],
      body = KeyedPreviewsBody kp\<rparr>"

definition submitPreviewCompletion ::
  "env \<Rightarrow> CMPClient \<Rightarrow> jsval \<Rightarrow> jsval \<Rightarrow> jsval \<Rightarrow> KeyedPreviews \<Rightarrow> world
     \<Rightarrow> (thrown + unit) \<times> CMPClient \<times> world" where
  "submitPreviewCompletion E c cid vid pid kp w =
     (case completion_url (client_config c) cid vid pid of
        Inl e \<Rightarrow> (Inl e, c, w)
      | Inr completionUrl \<Rightarrow>
          (case getAccessToken E (oauthClient c) w of
             (Inl e, oc, w1) \<Rightarrow> (Inl e, c\<lparr>oauthClient := oc\<rparr>, w1)
           | (Inr tok, oc, w1) \<Rightarrow>
               (case do_fetch E (completion_request completionUrl kp tok) w1 of
                  (Inl e, w2) \<Rightarrow> (Inl e, c\<lparr>oauthClient := oc\<rparr>, w2)
                | (Inr resp, w2) \<Rightarrow>
                    if \<not> resp_ok resp then
                      (case resp_text resp of
                         Inl e \<Rightarrow> (Inl e, c\<lparr>oauthClient := oc\<rparr>, w2)
                       | Inr errorText \<Rightarrow>
                           (Inl (CMPError ''Failed to submit preview completion''
                                   (Some (resp_status resp)) (Some errorText)),
                            c\<lparr>oauthClient := oc\<rparr>, w2))
                    else (Inr (), c\<lparr>oauthClient := oc\<rparr>, w2))))"

section \<open>Webhook handler\<close>

record CMPWebhookHandler =
  handler_config :: CMPWebhookConfig
  client :: CMPClient
  handler_previewTypes :: "string list"

definition default_previewTypes :: "string list" where
  "default_previewTypes = [''default'', ''mobile'', ''desktop'', ''tablet'', ''signage'']"

text \<open>\<^verbatim>\<open>config.previewTypes || [...]\<close>: an array, empty or not, is truthy.\<close>

definition new_CMPWebhookHandler :: "CMPWebhookConfig \<Rightarrow> thrown + CMPWebhookHandler" where
  "new_CMPWebhookHandler config =
     (if previewUrl config = [] then Inl (JsError ''previewUrl is required'')
      else
        (case new_CMPClient
                \<lparr>clientId = clientId config, clientSecret = clientSecret config,
                 authServerUrl = authServerUrl config, apiBaseUrl = apiBaseUrl config\<rparr> of
           Inl e \<Rightarrow> Inl e
         | Inr c \<Rightarrow>
             Inr \<lparr>handler_config = config, client = c,
                  handler_previewTypes =
                    (case previewTypes config of
                       None \<Rightarrow> default_previewTypes
                     | Some ts \<Rightarrow> ts)\<rparr>))"

definition preview_link :: "string \<Rightarrow> string \<Rightarrow> jsval \<Rightarrow> thrown + string" where
  "preview_link base type cid =
     template [Inr base, Inr ''/preview/'', Inr type, Inr ''/'', js_to_string cid]"

text \<open>
  \<^verbatim>\<open>keyedPreviews[type] = url\<close> on a plain object: it sets the own property \<open>type\<close>, new or
  not, except for the name \<^verbatim>\<open>__proto__\<close>, where the assignment goes to the accessor of
  \<^verbatim>\<open>Object.prototype\<close>, which ignores a string and leaves the object as it was.
\<close>

definition js_assign :: "KeyedPreviews \<Rightarrow> string \<Rightarrow> string \<Rightarrow> KeyedPreviews" where
  "js_assign kp k v = (if k = ''__proto__'' then kp else kp(k \<mapsto> v))"

text \<open>The \<^verbatim>\<open>for ... of\<close> loop of \<open>generatePreviewUrls\<close>.\<close>

fun generatePreviewUrls_loop ::
  "string \<Rightarrow> jsval \<Rightarrow> string list \<Rightarrow> KeyedPreviews \<Rightarrow> thrown + KeyedPreviews" where
  "generatePreviewUrls_loop base cid [] kp = Inr kp"
| "generatePreviewUrls_loop base cid (type # types) kp =
     (case preview_link base type cid of
        Inl e \<Rightarrow> Inl e
      | Inr link \<Rightarrow> generatePreviewUrls_loop base cid types (js_assign kp type link))"

definition generatePreviewUrls :: "CMPWebhookHandler \<Rightarrow> jsval \<Rightarrow> thrown + KeyedPreviews" where
  "generatePreviewUrls h cid =
     generatePreviewUrls_loop (previewUrl (handler_config h)) cid (handler_previewTypes h)
       Map.empty"

text \<open>
  The mapping as the specification words it, to be compared with \<open>generatePreviewUrls\<close>:
  the fold, from left to right over the preview types, that gives each type the URL
  \<^verbatim>\<open>{previewUrl}/preview/{type}/{contentId}\<close>, a later duplicate overwriting the earlier.
\<close>

definition spec_keyedPreviews :: "string \<Rightarrow> string list \<Rightarrow> string \<Rightarrow> KeyedPreviews" where
  "spec_keyedPreviews base types s =
     foldl (\<lambda>kp type. kp(type \<mapsto> base @ ''/preview/'' @ type @ ''/'' @ s)) Map.empty types"

record WebhookData =
  data_contentId :: jsval
  data_versionId :: jsval
  data_previewId :: jsval
  keyedPreviews :: KeyedPreviews

record WebhookHandlerResult =
  success :: bool
  data :: "WebhookData option"
  error :: "string option"
  status :: int

definition failure :: "string \<Rightarrow> int \<Rightarrow> WebhookHandlerResult" where
  "failure msg code = \<lparr>success = False, data = None, error = Some msg, status = code\<rparr>"

text \<open>The object returned when every step has succeeded.\<close>

definition success_result :: "PreviewRequest \<Rightarrow> KeyedPreviews \<Rightarrow> WebhookHandlerResult" where
  "success_result previewRequest kp =
     \<lparr>success = True,
      data = Some \<lparr>data_contentId = contentId previewRequest,
                   data_versionId = versionId previewRequest,
                   data_previewId = previewId previewRequest,
                   keyedPreviews = kp\<rparr>,
      error = None, status = 200\<rparr>"

text \<open>Everything in the \<^verbatim>\<open>try\<close> block from \<open>parseWebhookPayload\<close> on.\<close>

definition process_payload ::
  "env \<Rightarrow> CMPWebhookHandler \<Rightarrow> jsval \<Rightarrow> world
     \<Rightarrow> (thrown + WebhookHandlerResult) \<times> CMPWebhookHandler \<times> world" where
  "process_payload E h parsedPayload w =
     (case parseWebhookPayload parsedPayload of
        Inl e \<Rightarrow> (Inl e, h, w)
      | Inr previewRequest \<Rightarrow>
          (case acknowledgePreview E (client h) (contentId previewRequest)
                  (versionId previewRequest) (previewId previewRequest)
                  (updatedBy previewRequest) (contentHash previewRequest) w of
             (Inl e, c1, w1) \<Rightarrow> (Inl e, h\<lparr>client := c1\<rparr>, w1)
           | (Inr u, c1, w1) \<Rightarrow>
               (case generatePreviewUrls h (contentId previewRequest) of
                  Inl e \<Rightarrow> (Inl e, h\<lparr>client := c1\<rparr>, w1)
                | Inr kp \<Rightarrow>
                    (case submitPreviewCompletion E c1 (contentId previewRequest)
                            (versionId previewRequest) (previewId previewRequest) kp w1 of
                       (Inl e, c2, w2) \<Rightarrow> (Inl e, h\<lparr>client := c2\<rparr>, w2)
                     | (Inr u', c2, w2) \<Rightarrow>
                         (Inr (success_result previewRequest kp), h\<lparr>client := c2\<rparr>, w2)))))"

text \<open>The \<^verbatim>\<open>try\<close> block of \<open>handleWebhook\<close>: \<open>Inl\<close> is a value thrown inside it.\<close>

definition handleWebhook_try ::
  "env \<Rightarrow> CMPWebhookHandler \<Rightarrow> jsval \<Rightarrow> world
     \<Rightarrow> (thrown + WebhookHandlerResult) \<times> CMPWebhookHandler \<times> world" where
  "handleWebhook_try E h payload w =
     (case payload of
        JStr s \<Rightarrow>
          if s = [] then (Inr (failure ''Empty payload'' 400), h, w)
          else
            (case json_parse E s of
               None \<Rightarrow> (Inr (failure ''Invalid JSON payload'' 400), h, w)
             | Some parsedPayload \<Rightarrow> process_payload E h parsedPayload w)
      | _ \<Rightarrow> process_payload E h payload w)"

text \<open>The \<^verbatim>\<open>catch\<close> block: \<^verbatim>\<open>error.statusCode || 500\<close> is 500 for a missing or zero code.\<close>

fun handleWebhook_catch :: "thrown \<Rightarrow> WebhookHandlerResult" where
  "handleWebhook_catch (CMPError message statusCode details) =
     failure message (case statusCode of None \<Rightarrow> 500 | Some s \<Rightarrow> if s = 0 then 500 else s)"
| "handleWebhook_catch (JsError message) = failure message 500"
| "handleWebhook_catch (Thrown v) = failure ''Unknown error'' 500"

text \<open>
  \<open>handleWebhook\<close>, with the type of any other method: \<open>Inl\<close> would be a value it throws.
\<close>

definition handleWebhook ::
  "env \<Rightarrow> CMPWebhookHandler \<Rightarrow> jsval \<Rightarrow> world
     \<Rightarrow> (thrown + WebhookHandlerResult) \<times> CMPWebhookHandler \<times> world" where
  "handleWebhook E h payload w =
     (case handleWebhook_try E h payload w of
        (Inr r, h', w') \<Rightarrow> (Inr r, h', w')
      | (Inl e, h', w') \<Rightarrow> (Inr (handleWebhook_catch e), h', w'))"

section \<open>Example inputs\<close>

text \<open>A webhook payload of the documented shape, and the same without its content hash.\<close>

definition example_payload :: jsval where
  "example_payload =
     JObj [(''data'', JObj [(''preview_id'', JStr ''p1''),
       (''assets'', JObj [(''structured_contents'',
          JArr [JObj [(''id'', JStr ''abc123''), (''version_id'', JStr ''v1''),
                      (''content_body'',
                         JObj [(''updated_by'', JStr ''u1''),
                               (''fields_version'',
                                  JObj [(''content_hash'', JStr ''h1'')])])]])])])]"

definition payload_without_hash :: jsval where
  "payload_without_hash =
     JObj [(''data'', JObj [(''preview_id'', JStr ''p1''),
       (''assets'', JObj [(''structured_contents'',
          JArr [JObj [(''id'', JStr ''abc123''), (''version_id'', JStr ''v1''),
                      (''content_body'', JObj [(''updated_by'', JStr ''u1'')])]])])])]"

text \<open>
  The payload without a content hash again, its id now an object with an own property
  \<^verbatim>\<open>toString\<close>, as \<^verbatim>\<open>JSON.parse\<close> builds it from \<^verbatim>\<open>{toString: 1}\<close>.
\<close>

definition payload_unprintable_id :: jsval where
  "payload_unprintable_id =
     JObj [(''data'', JObj [(''preview_id'', JStr ''p1''),
       (''assets'', JObj [(''structured_contents'',
          JArr [JObj [(''id'', JObj [(''toString'', JNum False ''1'')]),
                      (''version_id'', JStr ''v1''),
                      (''content_body'', JObj [(''updated_by'', JStr ''u1'')])]])])])]"

definition example_request :: PreviewRequest where
  "example_request =
     \<lparr>contentId = JStr ''abc123'', versionId = JStr ''v1'', previewId = JStr ''p1'',
      updatedBy = JStr ''u1'', contentHash = JStr ''h1''\<rparr>"

definition example_config :: CMPWebhookConfig where
  "example_config =
     \<lparr>clientId = ''id'', clientSecret = ''secret'', authServerUrl = ''https://auth'',
      apiBaseUrl = ''https://api'', previewUrl = ''https://preview'', previewTypes = None\<rparr>"

definition example_oauth :: CMPOAuthClient where
  "example_oauth =
     \<lparr>oauth_config =
        \<lparr>clientId = ''id'', clientSecret = ''secret'', authServerUrl = ''https://auth''\<rparr>,
      tokenCache = None\<rparr>"

definition example_client :: CMPClient where
  "example_client =
     \<lparr>client_config =
        \<lparr>clientId = ''id'', clientSecret = ''secret'', authServerUrl = ''https://auth'',
         apiBaseUrl = ''https://api''\<rparr>,
      oauthClient = example_oauth\<rparr>"

definition example_handler :: CMPWebhookHandler where
  "example_handler =
     \<lparr>handler_config = example_config, client = example_client,
      handler_previewTypes = default_previewTypes\<rparr>"

text \<open>
  The handler of a configuration whose list of preview types is there and empty, and the
  handler of one whose only preview type is named \<^verbatim>\<open>__proto__\<close>.
\<close>

definition bare_handler :: CMPWebhookHandler where
  "bare_handler =
     \<lparr>handler_config = example_config\<lparr>previewTypes := Some []\<rparr>, client = example_client,
      handler_previewTypes = []\<rparr>"

definition proto_handler :: CMPWebhookHandler where
  "proto_handler =
     \<lparr>handler_config = example_config\<lparr>previewTypes := Some [''__proto__'']\<rparr>,
      client = example_client, handler_previewTypes = [''__proto__'']\<rparr>"

text \<open>The two URLs of the protocol calls for the example payload.\<close>

definition example_acknowledge_url :: string where
  "example_acknowledge_url =
     ''https://api/structured-content/contents/abc123/versions/v1/previews/p1/acknowledge''"

definition example_completion_url :: string where
  "example_completion_url =
     ''https://api/structured-content/contents/abc123/versions/v1/previews/p1/complete''"

text \<open>
  Answers of the platform: a token good for 3600 seconds, a token good for \<open>2^53\<close> seconds,
  an empty success, and a refusal with status 403 and body \<^verbatim>\<open>forbidden\<close>.
\<close>

definition token_response :: response where
  "token_response =
     \<lparr>resp_ok = True, resp_status = 200, resp_text = Inr [],
      resp_json = Inr (Some \<lparr>access_token = Some ''tok'', expires_in = Some (Finite 3600)\<rparr>)\<rparr>"

definition long_token_response :: response where
  "long_token_response =
     \<lparr>resp_ok = True, resp_status = 200, resp_text = Inr [],
      resp_json = Inr (Some \<lparr>access_token = Some ''tok'',
                               expires_in = Some (Finite 9007199254740992)\<rparr>)\<rparr>"

definition accepted_response :: response where
  "accepted_response =
     \<lparr>resp_ok = True, resp_status = 200, resp_text = Inr [], resp_json = Inr None\<rparr>"

definition forbidden_response :: response where
  "forbidden_response =
     \<lparr>resp_ok = False, resp_status = 403, resp_text = Inr ''forbidden'',
      resp_json = Inl (JsError ''Unexpected token'')\<rparr>"

text \<open>
  A clock that reads 1000 ms at first, then 3299 s later, then 3301 s later than the first
  reading; a parser that knows the text \<^verbatim>\<open>null\<close> and fails on anything else it is asked.
\<close>

definition example_clock :: "nat \<Rightarrow> int" where
  "example_clock n = (if n = 0 then 1000 else if n = 1 then 1000 + 3299 * 1000 else 1000 + 3301 * 1000)"

definition example_parser :: "string \<Rightarrow> jsval option" where
  "example_parser s = (if s = ''null'' then Some JNull else None)"

text \<open>
  Environments: the platform accepts every call; it issues a token and then refuses; it
  issues the long-lived token; the network is down and every \<^verbatim>\<open>fetch\<close> throws an \<^verbatim>\<open>Error\<close>;
  every \<^verbatim>\<open>fetch\<close> throws a given value.
\<close>

definition env_accept :: env where
  "env_accept =
     \<lparr>fetch = (\<lambda>n r. if n = 0 then Inr token_response else Inr accepted_response),
      now = example_clock, json_parse = example_parser\<rparr>"

definition env_forbid :: env where
  "env_forbid =
     \<lparr>fetch = (\<lambda>n r. if n = 0 then Inr token_response else Inr forbidden_response),
      now = example_clock, json_parse = example_parser\<rparr>"

definition env_long :: env where
  "env_long =
     \<lparr>fetch = (\<lambda>n r. Inr long_token_response),
      now = example_clock, json_parse = example_parser\<rparr>"

definition env_down :: env where
  "env_down =
     \<lparr>fetch = (\<lambda>n r. Inl (JsError ''fetch failed'')),
      now = example_clock, json_parse = example_parser\<rparr>"

definition env_throwing :: "thrown \<Rightarrow> env" where
  "env_throwing e =
     \<lparr>fetch = (\<lambda>n r. Inl e), now = example_clock, json_parse = example_parser\<rparr>"

definition world0 :: world where
  "world0 = \<lparr>requests = [], clock_reads = 0\<rparr>"

text \<open>The OAuth client and the world after the first token has been fetched and cached.\<close>

definition cached_oauth :: CMPOAuthClient where
  "cached_oauth =
     example_oauth\<lparr>tokenCache :=
       Some \<lparr>accessToken = ''tok'', expiresAt = Finite 3301000\<rparr>\<rparr>"

definition world1 :: world where
  "world1 = \<lparr>requests = [token_request (oauth_config example_oauth)], clock_reads = 1\<rparr>"

section \<open>The examples, evaluated\<close>

lemma parse_example: "parseWebhookPayload example_payload = Inr example_request"
  by (simp add: parseWebhookPayload_def extract_fields_def lookup_prop_def example_payload_def
      example_request_def)

lemma construct_example: "new_CMPWebhookHandler example_config = Inr example_handler"
  by (simp add: new_CMPWebhookHandler_def new_CMPClient_def new_CMPOAuthClient_def
      example_config_def example_handler_def example_client_def example_oauth_def)

lemma construct_bare:
  "new_CMPWebhookHandler (example_config\<lparr>previewTypes := Some []\<rparr>) = Inr bare_handler"
  by (simp add: new_CMPWebhookHandler_def new_CMPClient_def new_CMPOAuthClient_def
      example_config_def bare_handler_def example_client_def example_oauth_def)

lemma acknowledge_url_example:
  "acknowledge_url (client_config example_client) (JStr ''abc123'') (JStr ''v1'') (JStr ''p1'')
     = Inr example_acknowledge_url"
  by (simp add: acknowledge_url_def example_client_def example_acknowledge_url_def)

lemma completion_url_example:
  "completion_url (client_config example_client) (JStr ''abc123'') (JStr ''v1'') (JStr ''p1'')
     = Inr example_completion_url"
  by (simp add: completion_url_def example_client_def example_completion_url_def)

section \<open>Payload validation\<close>

text \<open>
  A value that does not convert to a string: the details are evaluated before the
  \<^verbatim>\<open>CMPError\<close> is built, so \<open>parseWebhookPayload\<close> throws the \<^verbatim>\<open>TypeError\<close> of the conversion.
\<close>

lemma parse_unprintable_id:
  "parseWebhookPayload payload_unprintable_id
     = Inl (JsError ''Cannot convert object to primitive value'')"
  by (simp add: parseWebhookPayload_def extract_fields_def lookup_prop_def
      missing_fields_details_def payload_unprintable_id_def)

text \<open>
  Claim C5, as the code has it. Let \<^verbatim>\<open>payload.data\<close> be readable (the payload is neither null
  nor undefined), let one of the five extracted fields be absent or falsy, and let each of
  the five values convert to a string, to \<open>c\<close>, \<open>v\<close>, \<open>p\<close>, \<open>u\<close> and \<open>h\<close>. Then
  \<open>parseWebhookPayload\<close> throws a \<^verbatim>\<open>CMPError\<close> with status code 400 whose message is the fixed
  text \<^verbatim>\<open>Missing required fields in webhook payload\<close> and whose \<^verbatim>\<open>details\<close> are
  \<^verbatim>\<open>contentId=c, versionId=v, previewId=p, updatedBy=u, contentHash=h\<close>. An absent value is
  echoed as \<^verbatim>\<open>undefined\<close>, null as \<^verbatim>\<open>null\<close>, an empty string as nothing.
\<close>

theorem parseWebhookPayload_missing_fields:
  assumes "get_prop payload ''data'' = Inr d"
    and "r = extract_fields d"
    and "\<not> truthy (contentId r) \<or> \<not> truthy (versionId r) \<or> \<not> truthy (previewId r)
         \<or> \<not> truthy (updatedBy r) \<or> \<not> truthy (contentHash r)"
    and "js_to_string (contentId r) = Inr c"
    and "js_to_string (versionId r) = Inr v"
    and "js_to_string (previewId r) = Inr p"
    and "js_to_string (updatedBy r) = Inr u"
    and "js_to_string (contentHash r) = Inr h"
  shows "parseWebhookPayload payload =
           Inl (CMPError ''Missing required fields in webhook payload'' (Some 400)
                  (Some (''contentId='' @ c @ '', versionId='' @ v @ '', previewId='' @ p
                         @ '', updatedBy='' @ u @ '', contentHash='' @ h)))
         \<and> js_to_string JUndefined = Inr ''undefined''
         \<and> js_to_string JNull = Inr ''null''
         \<and> js_to_string (JStr []) = Inr []"
proof -
  from assms(4-8)
  have "missing_fields_details r =
          Inr (''contentId='' @ c @ '', versionId='' @ v @ '', previewId='' @ p
               @ '', updatedBy='' @ u @ '', contentHash='' @ h)"
    by (simp add: missing_fields_details_def)
  with assms(1-3) show ?thesis
    by (auto simp: parseWebhookPayload_def Let_def)
qed

theorem parseWebhookPayload_missing_fields_witness:
  "get_prop payload_without_hash ''data'' = Inr (opt_prop payload_without_hash ''data'')
   \<and> \<not> truthy (contentHash (extract_fields (opt_prop payload_without_hash ''data'')))
   \<and> js_to_string (contentId (extract_fields (opt_prop payload_without_hash ''data'')))
       = Inr ''abc123''
   \<and> js_to_string (contentHash (extract_fields (opt_prop payload_without_hash ''data'')))
       = Inr ''undefined''
   \<and> parseWebhookPayload payload_without_hash =
       Inl (CMPError ''Missing required fields in webhook payload'' (Some 400)
              (Some ''contentId=abc123, versionId=v1, previewId=p1, updatedBy=u1, contentHash=undefined''))"
proof -
  have d: "get_prop payload_without_hash ''data'' = Inr (opt_prop payload_without_hash ''data'')"
    by (simp add: payload_without_hash_def lookup_prop_def)
  have e: "extract_fields (opt_prop payload_without_hash ''data'')
             = \<lparr>contentId = JStr ''abc123'', versionId = JStr ''v1'', previewId = JStr ''p1'',
                 updatedBy = JStr ''u1'', contentHash = JUndefined\<rparr>"
    by (simp add: payload_without_hash_def lookup_prop_def extract_fields_def)
  have f: "\<not> truthy (contentId (extract_fields (opt_prop payload_without_hash ''data'')))
           \<or> \<not> truthy (versionId (extract_fields (opt_prop payload_without_hash ''data'')))
           \<or> \<not> truthy (previewId (extract_fields (opt_prop payload_without_hash ''data'')))
           \<or> \<not> truthy (updatedBy (extract_fields (opt_prop payload_without_hash ''data'')))
           \<or> \<not> truthy (contentHash (extract_fields (opt_prop payload_without_hash ''data'')))"
    by (simp add: e)
  have c: "js_to_string (contentId (extract_fields (opt_prop payload_without_hash ''data'')))
             = Inr ''abc123''"
    and v: "js_to_string (versionId (extract_fields (opt_prop payload_without_hash ''data'')))
             = Inr ''v1''"
    and p: "js_to_string (previewId (extract_fields (opt_prop payload_without_hash ''data'')))
             = Inr ''p1''"
    and u: "js_to_string (updatedBy (extract_fields (opt_prop payload_without_hash ''data'')))
             = Inr ''u1''"
    and h: "js_to_string (contentHash (extract_fields (opt_prop payload_without_hash ''data'')))
             = Inr ''undefined''"
    by (simp_all add: e)
  note t = parseWebhookPayload_missing_fields[OF d refl f c v p u h, THEN conjunct1]
  from t d c h e show ?thesis
    by simp
qed

text \<open>
  The claim as the specification words it places the echo in the error's message. On the
  payload without a content hash the message is the fixed text and differs from the echo,
  which is the error's third field.
\<close>

theorem parseWebhookPayload_message_counterexample:
  "parseWebhookPayload payload_without_hash =
     Inl (CMPError ''Missing required fields in webhook payload'' (Some 400)
            (Some ''contentId=abc123, versionId=v1, previewId=p1, updatedBy=u1, contentHash=undefined''))
   \<and> missing_fields_details (extract_fields (opt_prop payload_without_hash ''data''))
       = Inr ''contentId=abc123, versionId=v1, previewId=p1, updatedBy=u1, contentHash=undefined''
   \<and> ''Missing required fields in webhook payload''
       \<noteq> ''contentId=abc123, versionId=v1, previewId=p1, updatedBy=u1, contentHash=undefined''"
  by (simp add: payload_without_hash_def parseWebhookPayload_def extract_fields_def
      lookup_prop_def missing_fields_details_def)

section \<open>Construction\<close>

text \<open>
  Claim C8. Constructing the OAuth client, the API client or the webhook handler with an
  empty string in a field that component requires throws at once: the constructor returns
  an \<^verbatim>\<open>Error\<close> whose message is \<^verbatim>\<open><field> is required\<close> for one of the component's
  required fields. The constructors are functions of the configuration alone; they cannot
  reach the network.
\<close>

theorem constructors_require_fields:
  "(clientId oc = [] \<or> clientSecret oc = [] \<or> authServerUrl oc = [] \<longrightarrow>
      (\<exists>f \<in> set [''clientId'', ''clientSecret'', ''authServerUrl''].
         new_CMPOAuthClient oc = Inl (JsError (f @ '' is required''))))
   \<and> (clientId cc = [] \<or> clientSecret cc = [] \<or> authServerUrl cc = [] \<or> apiBaseUrl cc = [] \<longrightarrow>
      (\<exists>f \<in> set [''clientId'', ''clientSecret'', ''authServerUrl'', ''apiBaseUrl''].
         new_CMPClient cc = Inl (JsError (f @ '' is required''))))
   \<and> (clientId wc = [] \<or> clientSecret wc = [] \<or> authServerUrl wc = [] \<or> apiBaseUrl wc = []
        \<or> previewUrl wc = [] \<longrightarrow>
      (\<exists>f \<in> set [''clientId'', ''clientSecret'', ''authServerUrl'', ''apiBaseUrl'', ''previewUrl''].
         new_CMPWebhookHandler wc = Inl (JsError (f @ '' is required''))))"
  by (auto simp: new_CMPOAuthClient_def new_CMPClient_def new_CMPWebhookHandler_def)

theorem constructors_require_fields_witness:
  "clientSecret (oauth_config example_oauth\<lparr>clientSecret := []\<rparr>) = []
   \<and> new_CMPOAuthClient (oauth_config example_oauth\<lparr>clientSecret := []\<rparr>)
       = Inl (JsError ''clientSecret is required'')
   \<and> apiBaseUrl (client_config example_client\<lparr>apiBaseUrl := []\<rparr>) = []
   \<and> new_CMPClient (client_config example_client\<lparr>apiBaseUrl := []\<rparr>)
       = Inl (JsError ''apiBaseUrl is required'')
   \<and> authServerUrl (example_config\<lparr>authServerUrl := []\<rparr>) = []
   \<and> new_CMPWebhookHandler (example_config\<lparr>authServerUrl := []\<rparr>)
       = Inl (JsError ''authServerUrl is required'')"
  using constructors_require_fields
          [of "oauth_config example_oauth\<lparr>clientSecret := []\<rparr>"
              "client_config example_client\<lparr>apiBaseUrl := []\<rparr>"
              "example_config\<lparr>authServerUrl := []\<rparr>"]
  by (simp add: new_CMPOAuthClient_def new_CMPClient_def new_CMPWebhookHandler_def
      example_config_def example_client_def example_oauth_def)

section \<open>Preview URLs\<close>

lemma generatePreviewUrls_loop_foldl:
  assumes "js_to_string cid = Inr s" and "''__proto__'' \<notin> set ts"
  shows "generatePreviewUrls_loop base cid ts kp =
           Inr (foldl (\<lambda>kp type. kp(type \<mapsto> base @ ''/preview/'' @ type @ ''/'' @ s)) kp ts)"
  using assms
  by (induction ts arbitrary: kp) (auto simp: preview_link_def js_assign_def)

lemma foldl_lookup:
  "foldl (\<lambda>kp type. kp(type \<mapsto> base @ ''/preview/'' @ type @ ''/'' @ s)) kp ts t =
     (if t \<in> set ts then Some (base @ ''/preview/'' @ t @ ''/'' @ s) else kp t)"
  by (induction ts arbitrary: kp) auto

lemma spec_keyedPreviews_lookup:
  "spec_keyedPreviews base types s t =
     (if t \<in> set types then Some (base @ ''/preview/'' @ t @ ''/'' @ s) else None)"
  unfolding spec_keyedPreviews_def foldl_lookup by simp

lemma spec_keyedPreviews_dom: "dom (spec_keyedPreviews base types s) = set types"
  by (auto simp: dom_def spec_keyedPreviews_lookup)

text \<open>
  Claim C6, as the code has it. Let the content id convert to the string \<open>s\<close> (a string
  converts to itself), and let no configured preview type be named \<^verbatim>\<open>__proto__\<close>. Then
  \<open>generatePreviewUrls\<close> returns exactly the mapping the specification describes: the
  left-to-right fold over the configured types that gives each type the URL
  \<^verbatim>\<open>{previewUrl}/preview/{type}/s\<close>, so that its names are the configured types and each maps
  to its URL (a repeated name has one entry). With the default configuration the result
  has exactly the five names default, mobile, desktop, tablet, signage.
\<close>

theorem generatePreviewUrls_fold:
  "(js_to_string cid = Inr s \<and> ''__proto__'' \<notin> set (handler_previewTypes h) \<longrightarrow>
      generatePreviewUrls h cid =
        Inr (spec_keyedPreviews (previewUrl (handler_config h)) (handler_previewTypes h) s))
   \<and> spec_keyedPreviews base types s t =
       (if t \<in> set types then Some (base @ ''/preview/'' @ t @ ''/'' @ s) else None)
   \<and> (js_to_string cid = Inr s \<and> previewTypes config = None
        \<and> new_CMPWebhookHandler config = Inr h \<longrightarrow>
        (\<exists>kp. generatePreviewUrls h cid = Inr kp
           \<and> dom kp = {''default'', ''mobile'', ''desktop'', ''tablet'', ''signage''}
           \<and> card (dom kp) = 5
           \<and> (\<forall>t \<in> dom kp. kp t = Some (previewUrl config @ ''/preview/'' @ t @ ''/'' @ s))))"
proof (intro conjI impI)
  assume "js_to_string cid = Inr s \<and> ''__proto__'' \<notin> set (handler_previewTypes h)"
  then show "generatePreviewUrls h cid =
        Inr (spec_keyedPreviews (previewUrl (handler_config h)) (handler_previewTypes h) s)"
    by (simp add: generatePreviewUrls_def spec_keyedPreviews_def generatePreviewUrls_loop_foldl)
next
  show "spec_keyedPreviews base types s t =
       (if t \<in> set types then Some (base @ ''/preview/'' @ t @ ''/'' @ s) else None)"
    by (rule spec_keyedPreviews_lookup)
next
  assume a: "js_to_string cid = Inr s \<and> previewTypes config = None
        \<and> new_CMPWebhookHandler config = Inr h"
  then have ts: "handler_previewTypes h = default_previewTypes"
    and cfg: "handler_config h = config"
    by (auto simp: new_CMPWebhookHandler_def split: if_splits sum.splits)
  have np: "''__proto__'' \<notin> set (handler_previewTypes h)"
    by (simp add: ts default_previewTypes_def)
  define kp where "kp = spec_keyedPreviews (previewUrl config) default_previewTypes s"
  from a np have g: "generatePreviewUrls h cid = Inr kp"
    by (simp add: generatePreviewUrls_def spec_keyedPreviews_def generatePreviewUrls_loop_foldl
        ts cfg kp_def)
  have d: "dom kp = {''default'', ''mobile'', ''desktop'', ''tablet'', ''signage''}"
    by (simp add: kp_def spec_keyedPreviews_dom default_previewTypes_def)
  have c: "card (dom kp) = 5"
    by (simp add: d)
  have v: "\<forall>t \<in> dom kp. kp t = Some (previewUrl config @ ''/preview/'' @ t @ ''/'' @ s)"
    by (auto simp: kp_def spec_keyedPreviews_lookup split: if_splits)
  from g d c v
  show "\<exists>kp. generatePreviewUrls h cid = Inr kp
           \<and> dom kp = {''default'', ''mobile'', ''desktop'', ''tablet'', ''signage''}
           \<and> card (dom kp) = 5
           \<and> (\<forall>t \<in> dom kp. kp t = Some (previewUrl config @ ''/preview/'' @ t @ ''/'' @ s))"
    by blast
qed

theorem generatePreviewUrls_fold_witness:
  "js_to_string (JStr ''abc123'') = Inr ''abc123''
   \<and> ''__proto__'' \<notin> set (handler_previewTypes example_handler)
   \<and> previewTypes example_config = None
   \<and> new_CMPWebhookHandler example_config = Inr example_handler
   \<and> generatePreviewUrls example_handler (JStr ''abc123'') =
       Inr (spec_keyedPreviews ''https://preview''
              [''default'', ''mobile'', ''desktop'', ''tablet'', ''signage''] ''abc123'')
   \<and> spec_keyedPreviews ''https://preview''
         [''default'', ''mobile'', ''desktop'', ''tablet'', ''signage''] ''abc123'' ''mobile''
       = Some ''https://preview/preview/mobile/abc123''
   \<and> card (dom (spec_keyedPreviews ''https://preview''
         [''default'', ''mobile'', ''desktop'', ''tablet'', ''signage''] ''abc123'')) = 5"
proof -
  have a: "js_to_string (JStr ''abc123'') = Inr ''abc123''"
    by simp
  have np: "''__proto__'' \<notin> set (handler_previewTypes example_handler)"
    by (simp add: example_handler_def default_previewTypes_def)
  have n: "previewTypes example_config = None"
    by (simp add: example_config_def)
  note t = generatePreviewUrls_fold
             [of "JStr ''abc123''" "''abc123''" example_handler "''https://preview''"
                 "[''default'', ''mobile'', ''desktop'', ''tablet'', ''signage'']"
                 "''mobile''" example_config]
  from t a np
  have g: "generatePreviewUrls example_handler (JStr ''abc123'') =
       Inr (spec_keyedPreviews (previewUrl (handler_config example_handler))
              (handler_previewTypes example_handler) ''abc123'')"
    by blast
  from t have l: "spec_keyedPreviews ''https://preview''
         [''default'', ''mobile'', ''desktop'', ''tablet'', ''signage''] ''abc123'' ''mobile''
       = Some ''https://preview/preview/mobile/abc123''"
    by simp
  have c: "card (dom (spec_keyedPreviews ''https://preview''
         [''default'', ''mobile'', ''desktop'', ''tablet'', ''signage''] ''abc123'')) = 5"
    by (simp add: spec_keyedPreviews_dom)
  from a np n construct_example g l c show ?thesis
    by (simp add: example_handler_def example_config_def default_previewTypes_def)
qed

text \<open>
  The claim as the specification words it holds for every configured list. With the single
  preview type \<^verbatim>\<open>__proto__\<close> the mapping of the specification has one entry, and the object
  the code returns has none.
\<close>

theorem generatePreviewUrls_proto_counterexample:
  "generatePreviewUrls proto_handler (JStr ''abc123'') = Inr Map.empty
   \<and> spec_keyedPreviews (previewUrl (handler_config proto_handler))
         (handler_previewTypes proto_handler) ''abc123'' ''__proto__''
       = Some ''https://preview/preview/__proto__/abc123''
   \<and> generatePreviewUrls proto_handler (JStr ''abc123'')
       \<noteq> Inr (spec_keyedPreviews (previewUrl (handler_config proto_handler))
                (handler_previewTypes proto_handler) ''abc123'')"
proof -
  have g: "generatePreviewUrls proto_handler (JStr ''abc123'') = Inr Map.empty"
    by (simp add: generatePreviewUrls_def proto_handler_def preview_link_def js_assign_def)
  have s: "spec_keyedPreviews (previewUrl (handler_config proto_handler))
         (handler_previewTypes proto_handler) ''abc123'' ''__proto__''
       = Some ''https://preview/preview/__proto__/abc123''"
    by (simp add: spec_keyedPreviews_lookup proto_handler_def example_config_def)
  have "Map.empty ''__proto__'' \<noteq> spec_keyedPreviews (previewUrl (handler_config proto_handler))
         (handler_previewTypes proto_handler) ''abc123'' ''__proto__''"
    by (simp add: s)
  then have "Map.empty \<noteq> spec_keyedPreviews (previewUrl (handler_config proto_handler))
         (handler_previewTypes proto_handler) ''abc123''"
    by metis
  with g s show ?thesis
    by simp
qed

section \<open>Numbers\<close>

lemma shift_of_safe: "m < 9007199254740992 \<Longrightarrow> shift_of m = 0"
  by (subst shift_of.simps) simp

text \<open>Below \<open>2^53\<close> rounding changes nothing.\<close>

lemma to_double_safe:
  assumes "safe_integer a"
  shows "to_double a = Finite a"
proof -
  have m: "nat \<bar>a\<bar> < 9007199254740992"
    using assms by (simp add: safe_integer_def)
  have "(9007199254740992::nat) \<le> 2 ^ 1024"
    by simp
  with m have big: "\<not> (2::nat) ^ 1024 \<le> nat \<bar>a\<bar>"
    by linarith
  have s: "shift_of (nat \<bar>a\<bar>) = 0"
    by (rule shift_of_safe[OF m])
  show ?thesis
    unfolding to_double_def Let_def s using big by (cases "a < 0") simp_all
qed

text \<open>The expiry the source computes, when every step stays among the safe integers.\<close>

lemma expiry_safe:
  assumes "safe_integer (n - 300)" and "safe_integer ((n - 300) * 1000)"
    and "safe_integer (T + (n - 300) * 1000)"
  shows "js_add (Finite T) (js_mul (js_sub (Finite n) (Finite 300)) (Finite 1000))
           = Finite (T + (n - 300) * 1000)"
proof -
  have "js_sub (Finite n) (Finite 300) = Finite (n - 300)"
    using to_double_safe[OF assms(1)] by (simp add: js_sub_def)
  moreover have "js_mul (Finite (n - 300)) (Finite 1000) = Finite ((n - 300) * 1000)"
    using to_double_safe[OF assms(2)] by simp
  moreover have "js_add (Finite T) (Finite ((n - 300) * 1000)) = Finite (T + (n - 300) * 1000)"
    using to_double_safe[OF assms(3)] by simp
  ultimately show ?thesis by simp
qed

lemma expiry_example:
  "js_add (Finite 1000) (js_mul (js_sub (Finite 3600) (Finite 300)) (Finite 1000))
     = Finite 3301000"
  using expiry_safe[of 3600 1000] by (simp add: safe_integer_def)

text \<open>The expiry of the long-lived token: both the product and the sum are rounded.\<close>

lemma expiry_long:
  "js_add (Finite 1000) (js_mul (js_sub (Finite 9007199254740992) (Finite 300)) (Finite 1000))
     = Finite 9007199254740692992"
proof -
  have a: "js_sub (Finite 9007199254740992) (Finite 300) = Finite 9007199254740692"
    using to_double_safe[of 9007199254740692] by (simp add: js_sub_def safe_integer_def)
  have s1: "shift_of 9007199254740692000 = 10"
    by (simp add: shift_of.simps)
  have b: "js_mul (Finite 9007199254740692) (Finite 1000) = Finite 9007199254740691968"
    by (simp add: to_double_def s1 Let_def)
  have s2: "shift_of 9007199254740692968 = 10"
    by (simp add: shift_of.simps)
  have c: "js_add (Finite 1000) (Finite 9007199254740691968) = Finite 9007199254740692992"
    by (simp add: to_double_def s2 Let_def)
  show ?thesis
    by (simp only: a b c)
qed

section \<open>The token cache\<close>

lemma fetch_new_token_requests:
  assumes "fetch_new_token E c w = (r, c', w')"
  shows "requests w' = requests w @ [token_request (oauth_config c)]"
  using assms
  by (auto simp: fetch_new_token_def do_fetch_def date_now_def Let_def
      split: sum.splits if_splits option.splits prod.splits)

lemma getAccessToken_requests:
  assumes "getAccessToken E c w = (r, c', w')"
  shows "requests w' = requests w \<or> requests w' = requests w @ [token_request (oauth_config c)]"
proof (cases "tokenCache c")
  case None
  with assms show ?thesis by (simp add: getAccessToken_def fetch_new_token_requests)
next
  case (Some tc)
  show ?thesis
  proof (cases "js_less (Finite (now E (clock_reads w))) (expiresAt tc)")
    case True
    with Some assms show ?thesis by (auto simp: getAccessToken_def date_now_def)
  next
    case False
    with Some assms
    have "fetch_new_token E c (w\<lparr>clock_reads := Suc (clock_reads w)\<rparr>) = (r, c', w')"
      by (simp add: getAccessToken_def date_now_def)
    from fetch_new_token_requests[OF this] show ?thesis by simp
  qed
qed

text \<open>A token request answered with a token and a lifetime: the token is returned and cached.\<close>

lemma fetch_new_token_success:
  assumes "fetch E (length (requests w)) (token_request (oauth_config c)) = Inr resp"
    and "resp_ok resp"
    and "resp_json resp = Inr (Some \<lparr>access_token = Some tok, expires_in = Some secs\<rparr>)"
    and "tok \<noteq> []" and "number_truthy secs"
  shows "fetch_new_token E c w =
           (Inr tok,
            c\<lparr>tokenCache := Some \<lparr>accessToken = tok,
                                  expiresAt = js_add (Finite (now E (clock_reads w)))
                                                (js_mul (js_sub secs (Finite 300)) (Finite 1000))\<rparr>\<rparr>,
            w\<lparr>requests := requests w @ [token_request (oauth_config c)],
              clock_reads := Suc (clock_reads w)\<rparr>)"
  using assms by (simp add: fetch_new_token_def do_fetch_def date_now_def)

text \<open>With no cached token, or a stale one, \<open>getAccessToken\<close> goes to the network.\<close>

lemma getAccessToken_stale:
  assumes "\<forall>tc. tokenCache c = Some tc
             \<longrightarrow> \<not> js_less (Finite (now E (clock_reads w))) (expiresAt tc)"
    and "w0 = (if tokenCache c = None then w else snd (date_now E w))"
  shows "getAccessToken E c w = fetch_new_token E c w0"
proof (cases "tokenCache c")
  case None
  with assms show ?thesis by (simp add: getAccessToken_def)
next
  case (Some tc)
  with assms(1) have "\<not> js_less (Finite (now E (clock_reads w))) (expiresAt tc)" by auto
  with Some assms(2) show ?thesis by (simp add: getAccessToken_def date_now_def)
qed

lemma token_example_accept:
  "getAccessToken env_accept example_oauth world0 = (Inr ''tok'', cached_oauth, world1)"
  by (simp add: getAccessToken_def fetch_new_token_def do_fetch_def date_now_def env_accept_def
      example_oauth_def world0_def world1_def cached_oauth_def token_response_def
      example_clock_def expiry_example)

lemma token_example_forbid:
  "getAccessToken env_forbid example_oauth world0 = (Inr ''tok'', cached_oauth, world1)"
  by (simp add: getAccessToken_def fetch_new_token_def do_fetch_def date_now_def env_forbid_def
      example_oauth_def world0_def world1_def cached_oauth_def token_response_def
      example_clock_def expiry_example)

text \<open>
  Claim C2, as the code has it. Let \<open>getAccessToken\<close> find no usable token in the cache, and
  let the token endpoint answer with a token and a lifetime of \<open>n\<close> seconds, a whole number;
  \<open>T\<close> is the clock reading (in milliseconds) taken when the answer is cached. Let \<open>n - 300\<close>,
  \<open>(n - 300) * 1000\<close> and \<open>T + (n - 300) * 1000\<close> be safe integers (of magnitude below \<open>2^53\<close>),
  so that no step of the source's arithmetic rounds. Then the call returns the token and
  the cached expiry is \<open>T + (n - 300) * 1000\<close>; \<open>hasCachedToken\<close> is true exactly at clock
  readings below that. For a lifetime of 3600 seconds it is true at \<open>T\<close> plus 3299 seconds
  and false at \<open>T\<close> plus 3301 seconds.
\<close>

theorem token_expiry_margin:
  assumes stale: "\<forall>tc. tokenCache c = Some tc
                    \<longrightarrow> \<not> js_less (Finite (now E (clock_reads w))) (expiresAt tc)"
    and w0: "w0 = (if tokenCache c = None then w else snd (date_now E w))"
    and resp: "fetch E (length (requests w0)) (token_request (oauth_config c)) = Inr resp"
    and ok: "resp_ok resp"
    and json: "resp_json resp
                 = Inr (Some \<lparr>access_token = Some tok, expires_in = Some (Finite n)\<rparr>)"
    and tok: "tok \<noteq> []" and secs: "n \<noteq> 0"
    and T: "T = now E (clock_reads w0)"
    and safe: "safe_integer (n - 300)" "safe_integer ((n - 300) * 1000)"
              "safe_integer (T + (n - 300) * 1000)"
    and c': "c' = fst (snd (getAccessToken E c w))"
  shows "fst (getAccessToken E c w) = Inr tok
     \<and> tokenCache c' = Some \<lparr>accessToken = tok, expiresAt = Finite (T + (n - 300) * 1000)\<rparr>
     \<and> (\<forall>w2. fst (hasCachedToken E c' w2) = (now E (clock_reads w2) < T + (n - 300) * 1000))
     \<and> (n = 3600 \<longrightarrow>
          (\<forall>w2. now E (clock_reads w2) = T + 3299 * 1000 \<longrightarrow> fst (hasCachedToken E c' w2))
        \<and> (\<forall>w2. now E (clock_reads w2) = T + 3301 * 1000 \<longrightarrow> \<not> fst (hasCachedToken E c' w2)))"
proof -
  have nt: "number_truthy (Finite n)"
    using secs by simp
  note g = getAccessToken_stale[OF stale w0]
  note f = fetch_new_token_success[OF resp ok json tok nt]
  from g f have r: "fst (getAccessToken E c w) = Inr tok"
    by simp
  from g f T c' expiry_safe[OF safe]
  have q: "tokenCache c' = Some \<lparr>accessToken = tok, expiresAt = Finite (T + (n - 300) * 1000)\<rparr>"
    by simp
  have h: "fst (hasCachedToken E c' w2) = (now E (clock_reads w2) < T + (n - 300) * 1000)"
    for w2
    by (simp add: q hasCachedToken_def date_now_def)
  have p: "n = 3600 \<longrightarrow>
          (\<forall>w2. now E (clock_reads w2) = T + 3299 * 1000 \<longrightarrow> fst (hasCachedToken E c' w2))
        \<and> (\<forall>w2. now E (clock_reads w2) = T + 3301 * 1000 \<longrightarrow> \<not> fst (hasCachedToken E c' w2))"
    by (simp add: h)
  from r q h p show ?thesis by blast
qed

theorem token_expiry_margin_witness:
  "tokenCache example_oauth = None
   \<and> fetch env_accept (length (requests world0)) (token_request (oauth_config example_oauth))
       = Inr token_response
   \<and> resp_json token_response
       = Inr (Some \<lparr>access_token = Some ''tok'', expires_in = Some (Finite 3600)\<rparr>)
   \<and> now env_accept (clock_reads world0) = 1000
   \<and> safe_integer (3600 - 300) \<and> safe_integer ((3600 - 300) * 1000)
   \<and> safe_integer (1000 + (3600 - 300) * 1000)
   \<and> fst (getAccessToken env_accept example_oauth world0) = Inr ''tok''
   \<and> tokenCache cached_oauth
       = Some \<lparr>accessToken = ''tok'', expiresAt = Finite (1000 + (3600 - 300) * 1000)\<rparr>
   \<and> now env_accept 1 = 1000 + 3299 * 1000
   \<and> fst (hasCachedToken env_accept cached_oauth \<lparr>requests = [], clock_reads = 1\<rparr>)
   \<and> now env_accept 2 = 1000 + 3301 * 1000
   \<and> \<not> fst (hasCachedToken env_accept cached_oauth \<lparr>requests = [], clock_reads = 2\<rparr>)"
proof -
  have stale: "\<forall>tc. tokenCache example_oauth = Some tc
                 \<longrightarrow> \<not> js_less (Finite (now env_accept (clock_reads world0))) (expiresAt tc)"
    by (simp add: example_oauth_def)
  have w0: "world0 = (if tokenCache example_oauth = None then world0
                      else snd (date_now env_accept world0))"
    by (simp add: example_oauth_def)
  have resp: "fetch env_accept (length (requests world0))
                (token_request (oauth_config example_oauth)) = Inr token_response"
    by (simp add: env_accept_def world0_def)
  have ok: "resp_ok token_response"
    by (simp add: token_response_def)
  have json: "resp_json token_response
                = Inr (Some \<lparr>access_token = Some ''tok'', expires_in = Some (Finite 3600)\<rparr>)"
    by (simp add: token_response_def)
  have T: "1000 = now env_accept (clock_reads world0)"
    by (simp add: env_accept_def world0_def example_clock_def)
  have s1: "safe_integer (3600 - 300)" and s2: "safe_integer ((3600 - 300) * 1000)"
    and s3: "safe_integer (1000 + (3600 - 300) * 1000)"
    by (simp_all add: safe_integer_def)
  have c': "cached_oauth = fst (snd (getAccessToken env_accept example_oauth world0))"
    by (simp add: token_example_accept)
  have n1: "now env_accept (clock_reads \<lparr>requests = [], clock_reads = 1\<rparr>) = 1000 + 3299 * 1000"
    and n2: "now env_accept (clock_reads \<lparr>requests = [], clock_reads = 2\<rparr>) = 1000 + 3301 * 1000"
    by (simp_all add: env_accept_def example_clock_def)
  note t = token_expiry_margin[OF stale w0 resp ok json _ _ T s1 s2 s3 c']
  have t1: "fst (getAccessToken env_accept example_oauth world0) = Inr ''tok''"
    and t2: "tokenCache cached_oauth
               = Some \<lparr>accessToken = ''tok'', expiresAt = Finite (1000 + (3600 - 300) * 1000)\<rparr>"
    and t3: "fst (hasCachedToken env_accept cached_oauth \<lparr>requests = [], clock_reads = 1\<rparr>)"
    and t4: "\<not> fst (hasCachedToken env_accept cached_oauth \<lparr>requests = [], clock_reads = 2\<rparr>)"
    using t n1 n2 by simp_all
  from t1 t2 t3 t4 resp json T n1 n2 s1 s2 s3 show ?thesis
    by (simp add: example_oauth_def)
qed

text \<open>
  The claim as the specification words it holds for every lifetime. With a lifetime of
  \<open>2^53\<close> seconds fetched at the clock reading 1000 the product and the sum are rounded: the
  code caches the expiry 9007199254740692992, and \<open>T + (expires_in - 300) * 1000\<close> is
  9007199254740693000.
\<close>

theorem token_expiry_rounding_counterexample:
  "getAccessToken env_long example_oauth world0 =
     (Inr ''tok'',
      example_oauth\<lparr>tokenCache :=
        Some \<lparr>accessToken = ''tok'', expiresAt = Finite 9007199254740692992\<rparr>\<rparr>,
      world1)
   \<and> now env_long (clock_reads world0) = 1000
   \<and> 1000 + (9007199254740992 - 300) * 1000 = (9007199254740693000 :: int)
   \<and> Finite 9007199254740692992 \<noteq> Finite (1000 + (9007199254740992 - 300) * 1000)"
  by (simp add: getAccessToken_def fetch_new_token_def do_fetch_def date_now_def env_long_def
      example_oauth_def world0_def world1_def long_token_response_def example_clock_def
      expiry_long)

text \<open>
  Claim C3. Let the first \<open>getAccessToken\<close> find no usable token and fetch one, and let the
  clock reading of the next call lie before the cached expiry. Then the first call issues
  exactly one request, the token request, and the second call returns the same token from
  the cache: it reads the clock and issues no request. After \<open>clearCache\<close>, whatever the
  client and the world, \<open>getAccessToken\<close> issues the token request.
\<close>

theorem token_cache_single_fetch:
  assumes stale: "\<forall>tc. tokenCache c = Some tc
                    \<longrightarrow> \<not> js_less (Finite (now E (clock_reads w))) (expiresAt tc)"
    and w0: "w0 = (if tokenCache c = None then w else snd (date_now E w))"
    and resp: "fetch E (length (requests w0)) (token_request (oauth_config c)) = Inr resp"
    and ok: "resp_ok resp"
    and json: "resp_json resp = Inr (Some \<lparr>access_token = Some tok, expires_in = Some secs\<rparr>)"
    and tok: "tok \<noteq> []" and secs: "number_truthy secs"
    and c1: "c1 = c\<lparr>tokenCache := Some \<lparr>accessToken = tok,
                        expiresAt = js_add (Finite (now E (clock_reads w0)))
                                      (js_mul (js_sub secs (Finite 300)) (Finite 1000))\<rparr>\<rparr>"
    and w1: "w1 = w0\<lparr>requests := requests w0 @ [token_request (oauth_config c)],
                     clock_reads := Suc (clock_reads w0)\<rparr>"
    and within: "js_less (Finite (now E (clock_reads w1)))
                   (js_add (Finite (now E (clock_reads w0)))
                      (js_mul (js_sub secs (Finite 300)) (Finite 1000)))"
  shows "getAccessToken E c w = (Inr tok, c1, w1)
     \<and> requests w1 = requests w @ [token_request (oauth_config c)]
     \<and> getAccessToken E c1 w1 = (Inr tok, c1, w1\<lparr>clock_reads := Suc (clock_reads w1)\<rparr>)
     \<and> (\<forall>x v. requests (snd (snd (getAccessToken E (clearCache x) v)))
                 = requests v @ [token_request (oauth_config x)])"
proof -
  from getAccessToken_stale[OF stale w0] fetch_new_token_success[OF resp ok json tok secs] c1 w1
  have first: "getAccessToken E c w = (Inr tok, c1, w1)"
    by simp
  have reqs: "requests w1 = requests w @ [token_request (oauth_config c)]"
    by (simp add: w1 w0 date_now_def)
  from within
  have second: "getAccessToken E c1 w1 = (Inr tok, c1, w1\<lparr>clock_reads := Suc (clock_reads w1)\<rparr>)"
    by (simp add: getAccessToken_def date_now_def c1)
  have cleared: "requests (snd (snd (getAccessToken E (clearCache x) v)))
                   = requests v @ [token_request (oauth_config x)]" for x v
  proof -
    obtain r x' v' where g: "getAccessToken E (clearCache x) v = (r, x', v')"
      by (cases "getAccessToken E (clearCache x) v") auto
    then have "fetch_new_token E (clearCache x) v = (r, x', v')"
      by (simp add: getAccessToken_def clearCache_def)
    from fetch_new_token_requests[OF this] g show ?thesis
      by (simp add: clearCache_def)
  qed
  from first reqs second cleared show ?thesis by blast
qed

theorem token_cache_single_fetch_witness:
  "tokenCache example_oauth = None
   \<and> fetch env_accept 0 (token_request (oauth_config example_oauth)) = Inr token_response
   \<and> js_less (Finite (now env_accept (clock_reads world1))) (Finite 3301000)
   \<and> getAccessToken env_accept example_oauth world0 = (Inr ''tok'', cached_oauth, world1)
   \<and> requests world1 = requests world0 @ [token_request (oauth_config example_oauth)]
   \<and> getAccessToken env_accept cached_oauth world1
       = (Inr ''tok'', cached_oauth, world1\<lparr>clock_reads := 2\<rparr>)
   \<and> requests (snd (snd (getAccessToken env_accept (clearCache cached_oauth) world1)))
       = [token_request (oauth_config example_oauth), token_request (oauth_config example_oauth)]"
proof -
  have stale: "\<forall>tc. tokenCache example_oauth = Some tc
                 \<longrightarrow> \<not> js_less (Finite (now env_accept (clock_reads world0))) (expiresAt tc)"
    by (simp add: example_oauth_def)
  have w0: "world0 = (if tokenCache example_oauth = None then world0
                      else snd (date_now env_accept world0))"
    by (simp add: example_oauth_def)
  have resp: "fetch env_accept (length (requests world0))
                (token_request (oauth_config example_oauth)) = Inr token_response"
    by (simp add: env_accept_def world0_def)
  have ok: "resp_ok token_response"
    by (simp add: token_response_def)
  have json: "resp_json token_response
                = Inr (Some \<lparr>access_token = Some ''tok'', expires_in = Some (Finite 3600)\<rparr>)"
    by (simp add: token_response_def)
  have n0: "now env_accept (clock_reads world0) = 1000"
    by (simp add: env_accept_def world0_def example_clock_def)
  have c1: "cached_oauth = example_oauth\<lparr>tokenCache := Some \<lparr>accessToken = ''tok'',
              expiresAt = js_add (Finite (now env_accept (clock_reads world0)))
                            (js_mul (js_sub (Finite 3600) (Finite 300)) (Finite 1000))\<rparr>\<rparr>"
    by (simp add: cached_oauth_def n0 expiry_example)
  have w1: "world1 = world0\<lparr>requests := requests world0 @ [token_request (oauth_config example_oauth)],
              clock_reads := Suc (clock_reads world0)\<rparr>"
    by (simp add: world1_def world0_def)
  have lt: "js_less (Finite (now env_accept (clock_reads world1))) (Finite 3301000)"
    by (simp add: env_accept_def world1_def example_clock_def)
  have within: "js_less (Finite (now env_accept (clock_reads world1)))
                  (js_add (Finite (now env_accept (clock_reads world0)))
                     (js_mul (js_sub (Finite 3600) (Finite 300)) (Finite 1000)))"
    using lt by (simp add: n0 expiry_example)
  note t = token_cache_single_fetch[OF stale w0 resp ok json _ _ c1 w1 within]
  have t1: "getAccessToken env_accept example_oauth world0 = (Inr ''tok'', cached_oauth, world1)"
    and t2: "requests world1 = requests world0 @ [token_request (oauth_config example_oauth)]"
    and t3: "getAccessToken env_accept cached_oauth world1
               = (Inr ''tok'', cached_oauth, world1\<lparr>clock_reads := Suc (clock_reads world1)\<rparr>)"
    and t4: "requests (snd (snd (getAccessToken env_accept (clearCache cached_oauth) world1)))
               = requests world1 @ [token_request (oauth_config cached_oauth)]"
    using t by simp_all
  have e: "oauth_config cached_oauth = oauth_config example_oauth"
    by (simp add: cached_oauth_def)
  from t1 t2 t3 t4 lt show ?thesis
    by (simp add: e) (simp add: example_oauth_def env_accept_def world1_def)
qed

section \<open>The webhook handler\<close>

lemma process_payload_Inr:
  assumes "process_payload E h p w = (Inr r, h', w')"
  shows "\<exists>pr kp. parseWebhookPayload p = Inr pr
           \<and> generatePreviewUrls h (contentId pr) = Inr kp \<and> r = success_result pr kp"
  using assms
  by (auto simp: process_payload_def Let_def split: sum.splits prod.splits)

text \<open>What the \<^verbatim>\<open>try\<close> block can return: the two early failures, or the final success.\<close>

lemma handleWebhook_try_Inr:
  assumes "handleWebhook_try E h p w = (Inr r, h', w')"
  shows "r = failure ''Empty payload'' 400 \<or> r = failure ''Invalid JSON payload'' 400
         \<or> (\<exists>pr kp. generatePreviewUrls h (contentId pr) = Inr kp \<and> r = success_result pr kp)"
proof (cases "\<exists>s. p = JStr s")
  case True
  then obtain s where s: "p = JStr s" by blast
  show ?thesis
  proof (cases "s = []")
    case True
    with s assms show ?thesis by (simp add: handleWebhook_try_def)
  next
    case False
    show ?thesis
    proof (cases "json_parse E s")
      case None
      with s False assms show ?thesis by (simp add: handleWebhook_try_def)
    next
      case (Some v)
      with s False assms have "process_payload E h v w = (Inr r, h', w')"
        by (simp add: handleWebhook_try_def)
      from process_payload_Inr[OF this] show ?thesis by blast
    qed
  qed
next
  case False
  with assms have "process_payload E h p w = (Inr r, h', w')"
    by (cases p) (simp_all add: handleWebhook_try_def)
  from process_payload_Inr[OF this] show ?thesis by blast
qed

lemma handleWebhook_catch_failure:
  "\<not> success (handleWebhook_catch e) \<and> data (handleWebhook_catch e) = None
   \<and> (\<exists>m. error (handleWebhook_catch e) = Some m)"
  by (cases e) (simp_all add: failure_def)

lemma handleWebhook_success:
  assumes "handleWebhook E h p w = (Inr r, h', w')" and "success r"
  shows "\<exists>pr kp. generatePreviewUrls h (contentId pr) = Inr kp \<and> r = success_result pr kp"
proof -
  obtain x h1 w1 where t: "handleWebhook_try E h p w = (x, h1, w1)"
    by (cases "handleWebhook_try E h p w") auto
  show ?thesis
  proof (cases x)
    case (Inl e)
    with t assms handleWebhook_catch_failure[of e] show ?thesis
      by (auto simp: handleWebhook_def)
  next
    case (Inr r')
    with t assms have "r' = r" by (simp add: handleWebhook_def)
    with handleWebhook_try_Inr[OF t[unfolded Inr]] assms(2) show ?thesis
      by (auto simp: failure_def)
  qed
qed

lemma example_payload_object:
  "handleWebhook_try E h example_payload w = process_payload E h example_payload w"
  by (simp add: handleWebhook_try_def example_payload_def)

lemma run_throwing:
  "handleWebhook_try (env_throwing e) example_handler example_payload world0 =
     (Inl e, example_handler,
      world0\<lparr>requests := [token_request (oauth_config example_oauth)]\<rparr>)"
proof -
  have ack: "acknowledgePreview (env_throwing e) example_client (JStr ''abc123'') (JStr ''v1'')
               (JStr ''p1'') u hh world0
               = (Inl e, example_client,
                  world0\<lparr>requests := [token_request (oauth_config example_oauth)]\<rparr>)"
    for u hh
    by (simp add: acknowledgePreview_def acknowledge_url_example)
       (simp add: getAccessToken_def fetch_new_token_def do_fetch_def
        env_throwing_def example_client_def example_oauth_def world0_def)
  show ?thesis
    by (simp add: example_payload_object process_payload_def parse_example)
       (simp add: example_handler_def example_request_def ack)
qed

text \<open>
  Claim C1, as the code has it. Whatever the payload, the handler's state and the
  behaviour of the network, the clock and the parser, \<open>handleWebhook\<close> returns a result and
  throws nothing. The result is either the success (status 200, with data and no error) or
  a failure (\<open>success\<close> false, an error message, no data). A value thrown inside the
  \<^verbatim>\<open>try\<close> block is turned into a failure: an \<^verbatim>\<open>Error\<close> that is no \<^verbatim>\<open>CMPError\<close> gives status
  500 with its message, empty or not, and a thrown value that is no \<^verbatim>\<open>Error\<close> gives status
  500 with the fixed text \<^verbatim>\<open>Unknown error\<close>.
\<close>

theorem handleWebhook_never_throws:
  "\<exists>r h' w'. handleWebhook E h p w = (Inr r, h', w')
     \<and> ((success r \<and> status r = 200 \<and> error r = None \<and> (\<exists>d. data r = Some d))
         \<or> (\<not> success r \<and> data r = None \<and> (\<exists>m. error r = Some m)))
     \<and> (\<forall>e. fst (handleWebhook_try E h p w) = Inl e \<longrightarrow>
            r = handleWebhook_catch e
            \<and> (\<forall>m. e = JsError m \<longrightarrow>
                  r = \<lparr>success = False, data = None, error = Some m, status = 500\<rparr>)
            \<and> (\<forall>v. e = Thrown v \<longrightarrow>
                  r = \<lparr>success = False, data = None, error = Some ''Unknown error'',
                       status = 500\<rparr>))"
proof -
  obtain x h1 w1 where t: "handleWebhook_try E h p w = (x, h1, w1)"
    by (cases "handleWebhook_try E h p w") auto
  show ?thesis
  proof (cases x)
    case (Inl e)
    with t have "handleWebhook E h p w = (Inr (handleWebhook_catch e), h1, w1)"
      by (simp add: handleWebhook_def)
    moreover note handleWebhook_catch_failure[of e]
    ultimately show ?thesis using t Inl by (auto simp: failure_def)
  next
    case (Inr r)
    with t have hw: "handleWebhook E h p w = (Inr r, h1, w1)"
      by (simp add: handleWebhook_def)
    from handleWebhook_try_Inr[OF t[unfolded Inr]]
    have "(success r \<and> status r = 200 \<and> error r = None \<and> (\<exists>d. data r = Some d))
         \<or> (\<not> success r \<and> data r = None \<and> (\<exists>m. error r = Some m))"
      by (auto simp: failure_def success_result_def)
    with hw t Inr show ?thesis by auto
  qed
qed

theorem handleWebhook_never_throws_witness:
  "fst (handleWebhook_try (env_throwing (JsError ''fetch failed'')) example_handler
          example_payload world0)
     = Inl (JsError ''fetch failed'')
   \<and> fst (handleWebhook (env_throwing (JsError ''fetch failed'')) example_handler
            example_payload world0)
       = Inr \<lparr>success = False, data = None, error = Some ''fetch failed'', status = 500\<rparr>
   \<and> fst (handleWebhook_try (env_throwing (Thrown JNull)) example_handler
            example_payload world0)
       = Inl (Thrown JNull)
   \<and> fst (handleWebhook (env_throwing (Thrown JNull)) example_handler
            example_payload world0)
       = Inr \<lparr>success = False, data = None, error = Some ''Unknown error'', status = 500\<rparr>"
  using handleWebhook_never_throws
          [of "env_throwing (JsError ''fetch failed'')" example_handler example_payload world0]
        handleWebhook_never_throws
          [of "env_throwing (Thrown JNull)" example_handler example_payload world0]
  by (auto simp: run_throwing)

text \<open>
  The claim as the specification words it reports an exception without a message by a
  stringified fallback. When \<^verbatim>\<open>fetch\<close> throws the string \<^verbatim>\<open>boom\<close>, its string form is
  \<^verbatim>\<open>boom\<close>, and the reported error is the fixed text \<^verbatim>\<open>Unknown error\<close>.
\<close>

theorem handleWebhook_fallback_counterexample:
  "fst (handleWebhook_try (env_throwing (Thrown (JStr ''boom''))) example_handler
          example_payload world0)
     = Inl (Thrown (JStr ''boom''))
   \<and> fst (handleWebhook (env_throwing (Thrown (JStr ''boom''))) example_handler
            example_payload world0)
       = Inr \<lparr>success = False, data = None, error = Some ''Unknown error'', status = 500\<rparr>
   \<and> js_to_string (JStr ''boom'') = Inr ''boom''
   \<and> ''Unknown error'' \<noteq> ''boom''"
  by (simp add: handleWebhook_def run_throwing failure_def)

text \<open>
  Claim C7. Given the empty string, \<open>handleWebhook\<close> returns the failure
  \<^verbatim>\<open>Empty payload\<close> with status 400; given a non-empty string on which \<^verbatim>\<open>JSON.parse\<close> throws,
  it returns the failure \<^verbatim>\<open>Invalid JSON payload\<close> with status 400. Neither touches the
  handler or the world.
\<close>

theorem handleWebhook_string_checks:
  "handleWebhook E h (JStr []) w =
     (Inr \<lparr>success = False, data = None, error = Some ''Empty payload'', status = 400\<rparr>, h, w)
   \<and> (s \<noteq> [] \<and> json_parse E s = None \<longrightarrow>
        handleWebhook E h (JStr s) w =
          (Inr \<lparr>success = False, data = None, error = Some ''Invalid JSON payload'',
                 status = 400\<rparr>, h, w))"
  by (simp add: handleWebhook_def handleWebhook_try_def failure_def)

theorem handleWebhook_string_checks_witness:
  "handleWebhook env_down example_handler (JStr []) world0 =
     (Inr \<lparr>success = False, data = None, error = Some ''Empty payload'', status = 400\<rparr>,
      example_handler, world0)
   \<and> ''not json'' \<noteq> []
   \<and> json_parse env_down ''not json'' = None
   \<and> handleWebhook env_down example_handler (JStr ''not json'') world0 =
       (Inr \<lparr>success = False, data = None, error = Some ''Invalid JSON payload'', status = 400\<rparr>,
        example_handler, world0)"
  using handleWebhook_string_checks [of env_down example_handler world0 "''not json''"]
  by (simp add: env_down_def example_parser_def)

text \<open>
  Claim C10. A payload that is not a string skips the empty and the JSON check and goes
  to field extraction as it is: the \<^verbatim>\<open>try\<close> block is \<open>process_payload\<close> on the payload, and
  when \<open>parseWebhookPayload\<close> throws, the thrown value alone decides the result. For null,
  reading \<^verbatim>\<open>payload.data\<close> throws a \<^verbatim>\<open>TypeError\<close>, and the result is a failure with status
  500 and the \<^verbatim>\<open>TypeError\<close>'s message, not a validation failure with status 400.
\<close>

theorem non_string_payload_unchecked:
  "((\<forall>s. p \<noteq> JStr s) \<longrightarrow> handleWebhook_try E h p w = process_payload E h p w)
   \<and> ((\<forall>s. p \<noteq> JStr s) \<longrightarrow> (\<forall>e. parseWebhookPayload p = Inl e \<longrightarrow>
          handleWebhook E h p w = (Inr (handleWebhook_catch e), h, w)))
   \<and> handleWebhook E h JNull w =
       (Inr \<lparr>success = False, data = None,
              error = Some (type_error_message ''null'' ''data''), status = 500\<rparr>, h, w)"
  by (auto simp: handleWebhook_def handleWebhook_try_def process_payload_def
      parseWebhookPayload_def failure_def split: jsval.splits)

theorem non_string_payload_unchecked_witness:
  "handleWebhook_try env_down example_handler JNull world0
     = process_payload env_down example_handler JNull world0
   \<and> parseWebhookPayload JNull = Inl (JsError (type_error_message ''null'' ''data''))
   \<and> handleWebhook env_down example_handler JNull world0 =
       (Inr \<lparr>success = False, data = None,
              error = Some (type_error_message ''null'' ''data''), status = 500\<rparr>,
        example_handler, world0)
   \<and> status (failure (type_error_message ''null'' ''data'') 500) \<noteq> 400"
  using non_string_payload_unchecked [of JNull env_down example_handler world0]
  by (simp add: parseWebhookPayload_def failure_def)

lemma token_request_not_completion:
  "token_request oc \<noteq> completion_request u kp t"
  by (simp add: token_request_def completion_request_def)

lemma acknowledge_request_not_completion:
  "acknowledge_request a ackBy hash t' \<noteq> completion_request u kp t"
  by (simp add: acknowledge_request_def completion_request_def)

text \<open>A refused acknowledgement: \<open>acknowledgePreview\<close> throws right after its request.\<close>

lemma acknowledgePreview_rejected:
  assumes aurl: "acknowledge_url (client_config c) cid vid pid = Inr aurl"
    and tok: "getAccessToken E (oauthClient c) w = (Inr tok, oc, w1)"
    and ack: "fetch E (length (requests w1)) (acknowledge_request aurl u hh tok) = Inr resp"
    and nok: "\<not> resp_ok resp" and rtext: "resp_text resp = Inr body_text"
  shows "acknowledgePreview E c cid vid pid u hh w =
           (Inl (CMPError ''Failed to acknowledge preview'' (Some (resp_status resp))
                   (Some body_text)),
            c\<lparr>oauthClient := oc\<rparr>,
            w1\<lparr>requests := requests w1 @ [acknowledge_request aurl u hh tok]\<rparr>)"
  using assms by (simp add: acknowledgePreview_def do_fetch_def)

text \<open>
  Claim C4. Let the payload be well formed (an object, or a string that parses to one, from
  which \<open>parseWebhookPayload\<close> extracts the request \<open>pr\<close>, with ids from which the URL of the
  acknowledge call is built), let the access token be there, and let the acknowledge
  endpoint answer with a non-success response whose status is an HTTP status (not 0) and
  whose body can be read. Then \<open>handleWebhook\<close> returns the failure
  \<^verbatim>\<open>Failed to acknowledge preview\<close> with that status, and the run ends with the acknowledge
  request: the world is the one \<open>acknowledgePreview\<close> left, and no request issued during
  the run is a completion request, so \<open>submitPreviewCompletion\<close> did not run.
\<close>

theorem acknowledge_failure_stops_run:
  assumes payload: "(p = JStr s \<and> s \<noteq> [] \<and> json_parse E s = Some v)
                    \<or> ((\<forall>s. p \<noteq> JStr s) \<and> v = p)"
    and parse: "parseWebhookPayload v = Inr pr"
    and aurl: "acknowledge_url (client_config (client h)) (contentId pr) (versionId pr)
                 (previewId pr) = Inr aurl"
    and tok: "getAccessToken E (oauthClient (client h)) w = (Inr tok, oc, w1)"
    and req: "areq = acknowledge_request aurl (updatedBy pr) (contentHash pr) tok"
    and ack: "fetch E (length (requests w1)) areq = Inr resp"
    and nok: "\<not> resp_ok resp" and st: "resp_status resp \<noteq> 0"
    and rtext: "resp_text resp = Inr body_text"
  shows "handleWebhook E h p w =
           (Inr \<lparr>success = False, data = None, error = Some ''Failed to acknowledge preview'',
                  status = resp_status resp\<rparr>,
            h\<lparr>client := (client h)\<lparr>oauthClient := oc\<rparr>\<rparr>,
            w1\<lparr>requests := requests w1 @ [areq]\<rparr>)
     \<and> (\<forall>r \<in> set (drop (length (requests w)) (requests w1 @ [areq])).
           \<forall>u kp t. r \<noteq> completion_request u kp t)"
proof -
  have t: "handleWebhook_try E h p w = process_payload E h v w"
    using payload by (cases p) (auto simp: handleWebhook_try_def)
  have "process_payload E h v w =
          (Inl (CMPError ''Failed to acknowledge preview'' (Some (resp_status resp))
                  (Some body_text)),
           h\<lparr>client := (client h)\<lparr>oauthClient := oc\<rparr>\<rparr>,
           w1\<lparr>requests := requests w1 @ [areq]\<rparr>)"
    using acknowledgePreview_rejected[OF aurl tok ack[unfolded req] nok rtext] parse
    by (simp add: process_payload_def req)
  with t st have a: "handleWebhook E h p w =
           (Inr \<lparr>success = False, data = None, error = Some ''Failed to acknowledge preview'',
                  status = resp_status resp\<rparr>,
            h\<lparr>client := (client h)\<lparr>oauthClient := oc\<rparr>\<rparr>,
            w1\<lparr>requests := requests w1 @ [areq]\<rparr>)"
    by (simp add: handleWebhook_def failure_def)
  from getAccessToken_requests[OF tok]
  have "set (drop (length (requests w)) (requests w1 @ [areq]))
          \<subseteq> {token_request (oauth_config (oauthClient (client h))), areq}"
    by auto
  then have sub: "r = token_request (oauth_config (oauthClient (client h))) \<or> r = areq"
    if "r \<in> set (drop (length (requests w)) (requests w1 @ [areq]))" for r
    using that by auto
  have b: "\<forall>r \<in> set (drop (length (requests w)) (requests w1 @ [areq])).
           \<forall>u kp t. r \<noteq> completion_request u kp t"
  proof (intro ballI allI)
    fix r u kp t
    assume "r \<in> set (drop (length (requests w)) (requests w1 @ [areq]))"
    from sub[OF this] show "r \<noteq> completion_request u kp t"
      by (auto simp: req token_request_not_completion[symmetric]
          acknowledge_request_not_completion[symmetric])
  qed
  from a b show ?thesis by (rule conjI)
qed

theorem acknowledge_failure_stops_run_witness:
  "parseWebhookPayload example_payload = Inr example_request
   \<and> acknowledge_url (client_config (client example_handler)) (contentId example_request)
         (versionId example_request) (previewId example_request)
       = Inr example_acknowledge_url
   \<and> getAccessToken env_forbid (oauthClient (client example_handler)) world0
       = (Inr ''tok'', cached_oauth, world1)
   \<and> fetch env_forbid (length (requests world1))
         (acknowledge_request example_acknowledge_url (JStr ''u1'') (JStr ''h1'') ''tok'')
       = Inr forbidden_response
   \<and> \<not> resp_ok forbidden_response
   \<and> resp_text forbidden_response = Inr ''forbidden''
   \<and> handleWebhook env_forbid example_handler example_payload world0 =
       (Inr \<lparr>success = False, data = None, error = Some ''Failed to acknowledge preview'',
              status = 403\<rparr>,
        example_handler\<lparr>client := example_client\<lparr>oauthClient := cached_oauth\<rparr>\<rparr>,
        \<lparr>requests =
           [token_request (oauth_config example_oauth),
            acknowledge_request example_acknowledge_url (JStr ''u1'') (JStr ''h1'') ''tok''],
         clock_reads = 1\<rparr>)"
proof -
  have payload: "(example_payload = JStr [] \<and> [] \<noteq> [] \<and> json_parse env_forbid [] = Some example_payload)
                 \<or> ((\<forall>s. example_payload \<noteq> JStr s) \<and> example_payload = example_payload)"
    by (simp add: example_payload_def)
  have aurl: "acknowledge_url (client_config (client example_handler)) (contentId example_request)
                (versionId example_request) (previewId example_request)
              = Inr example_acknowledge_url"
    using acknowledge_url_example by (simp add: example_handler_def example_request_def)
  have tok: "getAccessToken env_forbid (oauthClient (client example_handler)) world0
               = (Inr ''tok'', cached_oauth, world1)"
    by (simp add: example_handler_def example_client_def token_example_forbid)
  have req: "acknowledge_request example_acknowledge_url (JStr ''u1'') (JStr ''h1'') ''tok''
             = acknowledge_request example_acknowledge_url (updatedBy example_request)
                 (contentHash example_request) ''tok''"
    by (simp add: example_request_def)
  have ack: "fetch env_forbid (length (requests world1))
               (acknowledge_request example_acknowledge_url (JStr ''u1'') (JStr ''h1'') ''tok'')
             = Inr forbidden_response"
    by (simp add: env_forbid_def world1_def)
  have nok: "\<not> resp_ok forbidden_response"
    and st: "resp_status forbidden_response \<noteq> 0"
    and rtext: "resp_text forbidden_response = Inr ''forbidden''"
    by (simp_all add: forbidden_response_def)
  note t = acknowledge_failure_stops_run
             [OF payload parse_example aurl tok req ack nok st rtext, THEN conjunct1]
  from t parse_example aurl tok ack nok rtext show ?thesis
    by (simp add: forbidden_response_def example_handler_def world1_def)
qed

text \<open>
  Claim C9. The constructor takes the configured list of preview types whenever one is
  there, and the five defaults only when it is missing. So a configuration whose
  \<open>previewTypes\<close> is there and empty keeps the empty list: the handler built from it
  generates the empty mapping for every content id, and every successful result of
  \<open>handleWebhook\<close> carries no keyed previews.
\<close>

theorem empty_previewTypes_kept:
  assumes "new_CMPWebhookHandler config = Inr h"
  shows "handler_previewTypes h
           = (case previewTypes config of None \<Rightarrow> default_previewTypes | Some ts \<Rightarrow> ts)
         \<and> (previewTypes config = Some [] \<longrightarrow>
               handler_previewTypes h = []
               \<and> (\<forall>cid. generatePreviewUrls h cid = Inr Map.empty)
               \<and> (\<forall>E p w r h' w'. handleWebhook E h p w = (Inr r, h', w') \<and> success r \<longrightarrow>
                     (\<exists>d. data r = Some d \<and> keyedPreviews d = Map.empty)))"
proof (intro conjI impI)
  from assms
  show kept: "handler_previewTypes h
           = (case previewTypes config of None \<Rightarrow> default_previewTypes | Some ts \<Rightarrow> ts)"
    by (auto simp: new_CMPWebhookHandler_def split: if_splits sum.splits)
  assume "previewTypes config = Some []"
  with kept show pt: "handler_previewTypes h = []"
    by simp
  then show g: "\<forall>cid. generatePreviewUrls h cid = Inr Map.empty"
    by (simp add: generatePreviewUrls_def)
  have "\<exists>d. data r = Some d \<and> keyedPreviews d = Map.empty"
    if "handleWebhook E h p w = (Inr r, h', w')" "success r" for E p w r h' w'
  proof -
    from handleWebhook_success[OF that] obtain pr kp
      where "generatePreviewUrls h (contentId pr) = Inr kp" and "r = success_result pr kp"
      by blast
    with g show ?thesis by (simp add: success_result_def)
  qed
  then show "\<forall>E p w r h' w'. handleWebhook E h p w = (Inr r, h', w') \<and> success r \<longrightarrow>
                     (\<exists>d. data r = Some d \<and> keyedPreviews d = Map.empty)"
    by blast
qed

lemma run_accept_bare:
  "handleWebhook env_accept bare_handler example_payload world0 =
     (Inr (success_result example_request Map.empty),
      bare_handler\<lparr>client := example_client\<lparr>oauthClient := cached_oauth\<rparr>\<rparr>,
      \<lparr>requests =
         [token_request (oauth_config example_oauth),
          acknowledge_request example_acknowledge_url (JStr ''u1'') (JStr ''h1'') ''tok'',
          completion_request example_completion_url Map.empty ''tok''],
       clock_reads = 2\<rparr>)"
proof -
  have tok: "getAccessToken env_accept (oauthClient example_client) world0
               = (Inr ''tok'', cached_oauth, world1)"
    by (simp add: example_client_def token_example_accept)
  have ack: "acknowledgePreview env_accept example_client (JStr ''abc123'') (JStr ''v1'')
               (JStr ''p1'') (JStr ''u1'') (JStr ''h1'') world0
             = (Inr (), example_client\<lparr>oauthClient := cached_oauth\<rparr>,
                world1\<lparr>requests := requests world1
                  @ [acknowledge_request example_acknowledge_url (JStr ''u1'') (JStr ''h1'')
                       ''tok'']\<rparr>)"
    by (simp add: acknowledgePreview_def acknowledge_url_example tok do_fetch_def)
       (simp add: env_accept_def world1_def accepted_response_def)
  have cfg: "client_config (example_client\<lparr>oauthClient := cached_oauth\<rparr>)
               = client_config example_client"
    by simp
  have sub: "submitPreviewCompletion env_accept (example_client\<lparr>oauthClient := cached_oauth\<rparr>)
               (JStr ''abc123'') (JStr ''v1'') (JStr ''p1'') Map.empty
               (world1\<lparr>requests := requests world1
                  @ [acknowledge_request example_acknowledge_url (JStr ''u1'') (JStr ''h1'')
                       ''tok'']\<rparr>)
             = (Inr (), example_client\<lparr>oauthClient := cached_oauth\<rparr>,
                \<lparr>requests =
                   [token_request (oauth_config example_oauth),
                    acknowledge_request example_acknowledge_url (JStr ''u1'') (JStr ''h1'')
                      ''tok'',
                    completion_request example_completion_url Map.empty ''tok''],
                 clock_reads = 2\<rparr>)"
    by (simp add: submitPreviewCompletion_def cfg completion_url_example)
       (simp add: getAccessToken_def date_now_def do_fetch_def
        cached_oauth_def world1_def env_accept_def example_clock_def accepted_response_def)
  have gen: "generatePreviewUrls bare_handler (JStr ''abc123'') = Inr Map.empty"
    by (simp add: generatePreviewUrls_def bare_handler_def)
  have "handleWebhook_try env_accept bare_handler example_payload world0 =
     (Inr (success_result example_request Map.empty),
      bare_handler\<lparr>client := example_client\<lparr>oauthClient := cached_oauth\<rparr>\<rparr>,
      \<lparr>requests =
         [token_request (oauth_config example_oauth),
          acknowledge_request example_acknowledge_url (JStr ''u1'') (JStr ''h1'') ''tok'',
          completion_request example_completion_url Map.empty ''tok''],
       clock_reads = 2\<rparr>)"
    by (simp add: example_payload_object process_payload_def parse_example)
       (simp add: example_request_def bare_handler_def ack gen[unfolded bare_handler_def] sub)
  then show ?thesis
    by (simp add: handleWebhook_def)
qed

theorem empty_previewTypes_kept_witness:
  "previewTypes (example_config\<lparr>previewTypes := Some []\<rparr>) = Some []
   \<and> new_CMPWebhookHandler (example_config\<lparr>previewTypes := Some []\<rparr>) = Inr bare_handler
   \<and> handler_previewTypes bare_handler = []
   \<and> generatePreviewUrls bare_handler (JStr ''abc123'') = Inr Map.empty
   \<and> fst (handleWebhook env_accept bare_handler example_payload world0)
       = Inr (success_result example_request Map.empty)
   \<and> success (success_result example_request Map.empty)
   \<and> map_option keyedPreviews (data (success_result example_request Map.empty))
       = Some Map.empty"
proof -
  have a: "previewTypes (example_config\<lparr>previewTypes := Some []\<rparr>) = Some []"
    by simp
  note t = empty_previewTypes_kept[OF construct_bare, THEN conjunct2, rule_format, OF a]
  have t1: "handler_previewTypes bare_handler = []"
    and t2: "generatePreviewUrls bare_handler (JStr ''abc123'') = Inr Map.empty"
    using t by simp_all
  have s: "success (success_result example_request Map.empty)"
    by (simp add: success_result_def)
  have k: "map_option keyedPreviews (data (success_result example_request Map.empty))
             = Some Map.empty"
    by (simp add: success_result_def)
  from a construct_bare t1 t2 s k run_accept_bare show ?thesis
    by simp
qed

end
